theory Spec2Isabelle
  imports Complex_Main "HOL-Library.Multiset"
begin

section \<open>Plot generator: a shallow embedding of \<^verbatim>\<open>plot_generator.py\<close>\<close>

text \<open>
  The module draws synthetic data from numpy's process-wide random generator, wraps it in
  plotly traces and shows the figures. The embedding makes three things explicit:
  \<^item> the random generator is a state of type \<open>'g\<close>, threaded through every draw; the
    generator itself belongs to numpy and is a parameter \<open>smp\<close> of the model;
  \<^item> exceptions are values of the type \<open>error\<close>, on the left of a sum;
  \<^item> what the driver does to the outside (reading the environment, showing a figure,
    printing) is appended to a log.
  Python's floats are idealised as \<open>real\<close>, Python's \<open>str\<close> as \<open>string\<close> (code points
  below 256), Python's \<open>int\<close> as \<open>int\<close>, loop counters of \<open>range\<close> as \<open>nat\<close>.
  The interpreter's limit on the digits of an integer that is turned into text or read
  from text (\<^verbatim>\<open>sys.get_int_max_str_digits()\<close>: 4300 unless configured, 0 when switched off
  and in interpreters that have no limit) is the parameter \<open>maxd\<close>.
\<close>

subsection \<open>Python's string primitives used by the module\<close>

definition digit_char :: "nat \<Rightarrow> char" where
  "digit_char d = char_of (48 + d)"

fun str_nat :: "nat \<Rightarrow> string" where
  "str_nat n = (if n < 10 then [digit_char n] else str_nat (n div 10) @ [digit_char (n mod 10)])"

declare str_nat.simps [simp del]

text \<open>The decimal text of an integer.\<close>

definition decimal_int :: "int \<Rightarrow> string" where
  "decimal_int i = (if i < 0 then CHR ''-'' # str_nat (nat (- i)) else str_nat (nat i))"

text \<open>
  The limit on digits: a conversion between an integer and decimal text is refused when
  the number has more than 640 digits (below that the interpreter does not look at the
  limit), the limit is switched on, and the number has more digits than the limit. The
  sign does not count.
\<close>

definition digits_of :: "int \<Rightarrow> nat" where
  "digits_of i = length (str_nat (nat \<bar>i\<bar>))"

definition exceeds_limit :: "nat \<Rightarrow> nat \<Rightarrow> bool" where
  "exceeds_limit maxd digits = (640 < digits \<and> 0 < maxd \<and> maxd < digits)"

text \<open>\<^verbatim>\<open>f"{j:0wd}"\<close> for a non-negative \<open>j\<close>: decimal digits, padded with zeros to width \<open>w\<close>.\<close>

definition fmt_0d :: "nat \<Rightarrow> nat \<Rightarrow> string" where
  "fmt_0d w j = replicate (w - length (str_nat j)) CHR ''0'' @ str_nat j"

definition is_lower :: "char \<Rightarrow> bool" where
  "is_lower c = (97 \<le> (of_char c :: nat) \<and> (of_char c :: nat) \<le> 122)"

definition is_upper :: "char \<Rightarrow> bool" where
  "is_upper c = (65 \<le> (of_char c :: nat) \<and> (of_char c :: nat) \<le> 90)"

definition to_upper :: "char \<Rightarrow> char" where
  "to_upper c = (if is_lower c then char_of ((of_char c :: nat) - 32) else c)"

definition to_lower :: "char \<Rightarrow> char" where
  "to_lower c = (if is_upper c then char_of ((of_char c :: nat) + 32) else c)"

text \<open>
  \<^verbatim>\<open>str.title()\<close> on ASCII letters: a letter that follows a letter is lowered, any other
  letter is raised, everything else is kept and ends the word.
\<close>

fun title_from :: "bool \<Rightarrow> string \<Rightarrow> string" where
  "title_from prev [] = []"
| "title_from prev (c # cs) =
     (if is_lower c \<or> is_upper c
      then (if prev then to_lower c else to_upper c) # title_from True cs
      else c # title_from False cs)"

definition str_title :: "string \<Rightarrow> string" where
  "str_title s = title_from False s"

subsection \<open>Python's \<^verbatim>\<open>int(str)\<close>\<close>

text \<open>
  \<^verbatim>\<open>int(s)\<close> in base 10: white space is skipped at both ends, one sign may follow, then
  decimal digits, where single underscores may stand between two digits. The white space
  is that of C's \<^verbatim>\<open>isspace\<close> (tab to carriage return, and the space) and, of the code
  points from 128 on, the two that Unicode counts as white space below 256; the
  separators 28 to 31 are not skipped. The digits are counted without the underscores,
  leading zeros included, and more digits than the limit allows are refused. Every
  refusal is a \<^verbatim>\<open>ValueError\<close>, here \<open>None\<close>.
\<close>

definition is_space :: "char \<Rightarrow> bool" where
  "is_space c = ((of_char c :: nat) \<in> {9, 10, 11, 12, 13, 32, 133, 160})"

definition strip :: "string \<Rightarrow> string" where
  "strip s = rev (dropWhile is_space (rev (dropWhile is_space s)))"

definition is_digit :: "char \<Rightarrow> bool" where
  "is_digit c = (48 \<le> (of_char c :: nat) \<and> (of_char c :: nat) \<le> 57)"

definition digit_val :: "char \<Rightarrow> nat" where
  "digit_val c = of_char c - 48"

fun scan_digits :: "nat \<Rightarrow> string \<Rightarrow> nat option" where
  "scan_digits acc [] = Some acc"
| "scan_digits acc (c # cs) =
     (if is_digit c then scan_digits (10 * acc + digit_val c) cs
      else if c = CHR ''_'' then
        (case cs of
           [] \<Rightarrow> None
         | d # _ \<Rightarrow> if is_digit d then scan_digits acc cs else None)
      else None)"

definition digit_count :: "string \<Rightarrow> nat" where
  "digit_count b = length (filter is_digit b)"

definition parse_digits :: "nat \<Rightarrow> string \<Rightarrow> nat option" where
  "parse_digits maxd b =
     (case b of
        [] \<Rightarrow> None
      | c # _ \<Rightarrow>
          if is_digit c \<and> \<not> exceeds_limit maxd (digit_count b) then scan_digits 0 b else None)"

definition python_int :: "nat \<Rightarrow> string \<Rightarrow> int option" where
  "python_int maxd s =
     (case strip s of
        [] \<Rightarrow> None
      | c # cs \<Rightarrow>
          if c = CHR ''-'' then map_option (\<lambda>n. - int n) (parse_digits maxd cs)
          else if c = CHR ''+'' then map_option int (parse_digits maxd cs)
          else map_option int (parse_digits maxd (c # cs)))"



subsection \<open>Errors, the environment and the outside world\<close>

text \<open>
  The exceptions of the module are Python \<^verbatim>\<open>ValueError\<close>s: the one \<^verbatim>\<open>generate_plot\<close>
  raises itself, with its message; the one \<^verbatim>\<open>int\<close> raises on a text it refuses, here with
  that text; and the one raised when an integer with more digits than the limit is
  turned into text.
\<close>

datatype error =
    Unknown_Plot_Type string
  | Int_ValueError string
  | Str_Digits_Limit

text \<open>
  \<^verbatim>\<open>str(i)\<close>, which is also what \<^verbatim>\<open>f"{i}"\<close> inserts. Where the source formats a loop
  counter of a \<^verbatim>\<open>range\<close> below 50, the model writes \<open>decimal_int\<close>, or \<open>fmt_0d\<close>
  where the source pads it with zeros: a number of at most 640 digits is never refused.
\<close>

definition str_int :: "nat \<Rightarrow> int \<Rightarrow> error + string" where
  "str_int maxd i =
     (if exceeds_limit maxd (digits_of i) then Inl Str_Digits_Limit else Inr (decimal_int i))"

type_synonym environ = "string \<rightharpoonup> string"

text \<open>\<^verbatim>\<open>os.getenv(name, default)\<close>\<close>

definition getenv :: "environ \<Rightarrow> string \<Rightarrow> string \<Rightarrow> string" where
  "getenv env name dflt = (case env name of None \<Rightarrow> dflt | Some v \<Rightarrow> v)"

subsection \<open>The random generator\<close>

text \<open>
  The calls the module makes to \<^verbatim>\<open>numpy.random\<close>: \<^verbatim>\<open>randn\<close> (standard normal),
  \<^verbatim>\<open>normal(loc, scale)\<close>, \<^verbatim>\<open>exponential(scale)\<close> and \<^verbatim>\<open>uniform(low, high)\<close>. One draw
  takes the generator's state and returns a value and the next state; numpy's generator
  is the parameter \<open>smp\<close>. A call for \<open>n\<close> values draws \<open>n\<close> times in sequence.
\<close>

datatype dist =
    StandardNormal
  | Normal real real
  | Exponential real
  | Uniform real real

type_synonym 'g sampler = "dist \<Rightarrow> 'g \<Rightarrow> real \<times> 'g"

primrec draws :: "'g sampler \<Rightarrow> dist \<Rightarrow> nat \<Rightarrow> 'g \<Rightarrow> real list \<times> 'g" where
  "draws smp d 0 g = ([], g)"
| "draws smp d (Suc n) g =
     (case smp d g of (v, g1) \<Rightarrow>
        (case draws smp d n g1 of (vs, g2) \<Rightarrow> (v # vs, g2)))"

text \<open>\<^verbatim>\<open>randn(r, c)\<close>: \<open>r\<close> rows of \<open>c\<close> draws, filled row by row.\<close>

primrec draws_matrix :: "'g sampler \<Rightarrow> dist \<Rightarrow> nat \<Rightarrow> nat \<Rightarrow> 'g \<Rightarrow> real list list \<times> 'g" where
  "draws_matrix smp d 0 c g = ([], g)"
| "draws_matrix smp d (Suc r) c g =
     (case draws smp d c g of (row, g1) \<Rightarrow>
        (case draws_matrix smp d r c g1 of (rows, g2) \<Rightarrow> (row # rows, g2)))"

text \<open>A generator for concrete evaluation: the state counts the draws made so far.\<close>

definition counter_smp :: "nat sampler" where
  "counter_smp d g =
     ((case d of
         StandardNormal \<Rightarrow> 0
       | Normal loc scale \<Rightarrow> loc
       | Exponential scale \<Rightarrow> scale * real (g mod 3)
       | Uniform low high \<Rightarrow> low), Suc g)"

subsection \<open>numpy's array primitives used by the module\<close>

text \<open>\<^verbatim>\<open>array + scalar\<close> and \<^verbatim>\<open>scalar * array\<close>, element by element.\<close>

definition add_scalar :: "real list \<Rightarrow> real \<Rightarrow> real list" where
  "add_scalar xs c = map (\<lambda>v. v + c) xs"

definition range_py :: "nat \<Rightarrow> nat list" where
  "range_py n = [0..<n]"

text \<open>\<^verbatim>\<open>np.linspace(start, stop, num)\<close>: \<open>num\<close> evenly spaced values, both ends included.\<close>

definition linspace :: "real \<Rightarrow> real \<Rightarrow> nat \<Rightarrow> real list" where
  "linspace start stop num =
     map (\<lambda>k. start + real k * ((stop - start) / real (num - 1))) (range_py num)"

text \<open>\<^verbatim>\<open>np.cumsum\<close>: the running sums.\<close>

fun cumsum_from :: "real \<Rightarrow> real list \<Rightarrow> real list" where
  "cumsum_from acc [] = []"
| "cumsum_from acc (v # vs) = (acc + v) # cumsum_from (acc + v) vs"

definition cumsum :: "real list \<Rightarrow> real list" where
  "cumsum vs = cumsum_from 0 vs"

subsection \<open>Figures\<close>

text \<open>
  A figure is what the module asks plotly for: the subplot grid of \<^verbatim>\<open>make_subplots\<close>,
  the traces in the order they were added, each with the grid cell it was added to, and
  the layout keys the module sets. Each trace constructor keeps the arguments of the
  call, in the order of the source. \<open>PxBox\<close> and \<open>PxViolin\<close> stand for
  \<^verbatim>\<open>px.box\<close> and \<^verbatim>\<open>px.violin\<close> on a data frame with a \<^verbatim>\<open>category\<close> and a
  \<^verbatim>\<open>value\<close> column. Plotly's constructors are taken to accept the arguments the module
  passes.
\<close>

datatype marker = Marker real "real list" string bool
  \<comment> \<open>size, color, colorscale, showscale\<close>

datatype trace =
    Scattergl "real list" "real list" string marker string bool
      \<comment> \<open>x, y, mode, marker, name, showlegend\<close>
  | Scatter "real list" "real list" string string "real option" "string option"
      \<comment> \<open>x, y, mode, name, line width, fill\<close>
  | Bar "string list" "real list" string
      \<comment> \<open>x, y, name\<close>
  | Histogram "real list" nat string real
      \<comment> \<open>x, nbinsx, name, opacity\<close>
  | Heatmap "real list list" string bool
      \<comment> \<open>z, colorscale, showscale\<close>
  | Pie "string list" "real list" string string
      \<comment> \<open>labels, values, textinfo, hoverinfo\<close>
  | Funnel "string list" "real list" string
      \<comment> \<open>y, x, textinfo\<close>
  | PxBox "string list" "real list"
      \<comment> \<open>the category column (x), the value column (y)\<close>
  | PxViolin "string list" "real list"
      \<comment> \<open>the category column (x), the value column (y)\<close>

datatype grid = Grid nat nat "string list" bool bool
  \<comment> \<open>rows, cols, subplot\_titles, shared\_xaxes, shared\_yaxes\<close>

record figure =
  fig_grid :: "grid option"
  fig_data :: "(trace \<times> (nat \<times> nat) option) list"
  layout_title :: "string option"
  layout_showlegend :: "bool option"
  layout_barmode :: "string option"

text \<open>\<^verbatim>\<open>go.Figure()\<close>\<close>

definition go_Figure :: figure where
  "go_Figure = \<lparr>fig_grid = None, fig_data = [], layout_title = None,
     layout_showlegend = None, layout_barmode = None\<rparr>"

definition make_subplots :: "nat \<Rightarrow> nat \<Rightarrow> string list \<Rightarrow> bool \<Rightarrow> bool \<Rightarrow> figure" where
  "make_subplots rows cols subplot_titles shared_xaxes shared_yaxes =
     go_Figure\<lparr>fig_grid := Some (Grid rows cols subplot_titles shared_xaxes shared_yaxes)\<rparr>"

text \<open>\<^verbatim>\<open>fig.add_trace(trace, row=row, col=col)\<close>; the cell is \<open>None\<close> where the call names none.\<close>

definition add_trace :: "figure \<Rightarrow> trace \<Rightarrow> (nat \<times> nat) option \<Rightarrow> figure" where
  "add_trace fig tr cell = fig\<lparr>fig_data := fig_data fig @ [(tr, cell)]\<rparr>"

text \<open>The figure of \<^verbatim>\<open>px.box(df, x="category", y="value", title=t)\<close>, and of \<^verbatim>\<open>px.violin\<close>.\<close>

definition px_box :: "string list \<Rightarrow> real list \<Rightarrow> string \<Rightarrow> figure" where
  "px_box category val t = (add_trace go_Figure (PxBox category val) None)\<lparr>layout_title := Some t\<rparr>"

definition px_violin :: "string list \<Rightarrow> real list \<Rightarrow> string \<Rightarrow> figure" where
  "px_violin category val t =
     (add_trace go_Figure (PxViolin category val) None)\<lparr>layout_title := Some t\<rparr>"

subsection \<open>The module\<close>

definition PLOT_TYPES :: "string list" where
  "PLOT_TYPES = [''scatter'', ''line'', ''bar'', ''histogram'', ''box'', ''heatmap'', ''pie'',
     ''violin'', ''area'', ''funnel'']"

datatype event = GetEnv string | Show_fig figure | Print string

record 'g world =
  rng :: 'g
  events :: "event list"

text \<open>\<^verbatim>\<open>get_plot_count\<close>: \<^verbatim>\<open>int(os.getenv("PLOT_COUNT", "4"))\<close>, no handler around it.\<close>

definition get_plot_count :: "nat \<Rightarrow> environ \<Rightarrow> 'g world \<Rightarrow> error + (int \<times> 'g world)" where
  "get_plot_count maxd env w =
     (let s = getenv env ''PLOT_COUNT'' ''4'';
          w1 = w\<lparr>events := events w @ [GetEnv ''PLOT_COUNT'']\<rparr>
      in case python_int maxd s of
           None \<Rightarrow> Inl (Int_ValueError s)
         | Some n \<Rightarrow> Inr (n, w1))"

text \<open>
  The branches of \<^verbatim>\<open>generate_plot\<close>, one definition for each; a \<^verbatim>\<open>for\<close> loop is a
  \<open>fold\<close> of its body over the range, on the figure and the generator.
\<close>

text \<open>\<^verbatim>\<open>scatter\<close>: lines 73 to 105.\<close>

fun scatter_body :: "'g sampler \<Rightarrow> nat \<Rightarrow> figure \<times> 'g \<Rightarrow> figure \<times> 'g" where
  "scatter_body smp i (fig, g) =
     (let n_points = 1000;
          (x0, g1) = draws smp StandardNormal n_points g;
          x = add_scalar x0 (real ((i mod 10) * 2));
          (y0, g2) = draws smp StandardNormal n_points g1;
          y = add_scalar y0 (real ((i div 10) * 2));
          (colors, g3) = draws smp StandardNormal n_points g2;
          subplot_idx = i mod 4;
          row = subplot_idx div 2 + 1;
          col = subplot_idx mod 2 + 1
      in (add_trace fig
            (Scattergl x y ''markers'' (Marker 2 colors ''Viridis'' False)
               (''Dataset '' @ decimal_int (int i + 1)) False)
            (Some (row, col)),
          g3))"

definition scatter_plot ::
  "nat \<Rightarrow> 'g sampler \<Rightarrow> int \<Rightarrow> figure \<Rightarrow> 'g \<Rightarrow> error + figure \<times> 'g" where
  "scatter_plot maxd smp index fig0 g0 =
     (let (fig, g) = fold (scatter_body smp) (range_py 50) (fig0, g0)
      in case str_int maxd (index + 1) of
           Inl e \<Rightarrow> Inl e
         | Inr n \<Rightarrow>
             Inr (fig\<lparr>layout_title :=
                      Some (''Plot '' @ n @
                            '': Scatter Plots (50 traces, 50,000 points total)''),
                    layout_showlegend := Some False\<rparr>,
               g))"

text \<open>\<^verbatim>\<open>line\<close>: lines 109 to 126.\<close>

fun line_body :: "'g sampler \<Rightarrow> nat \<Rightarrow> figure \<times> 'g \<Rightarrow> figure \<times> 'g" where
  "line_body smp i (fig, g) =
     (let x = linspace 0 10 2000;
          (noise, g1) = draws smp StandardNormal 2000 g;
          y = map2 (\<lambda>xv nv. sin (xv + real i * pi / 4) * exp (- xv / 10) + 0.1 * nv) x noise;
          row = i div 2 + 1;
          col = i mod 2 + 1
      in (add_trace fig
            (Scatter x y ''lines'' (''Signal '' @ decimal_int (int i + 1)) (Some 1.5) None)
            (Some (row, col)),
          g1))"

definition line_plot ::
  "nat \<Rightarrow> 'g sampler \<Rightarrow> int \<Rightarrow> figure \<Rightarrow> 'g \<Rightarrow> error + figure \<times> 'g" where
  "line_plot maxd smp index fig0 g0 =
     (let (fig, g) = fold (line_body smp) (range_py 4) (fig0, g0)
      in case str_int maxd (index + 1) of
           Inl e \<Rightarrow> Inl e
         | Inr n \<Rightarrow>
             Inr (fig\<lparr>layout_title :=
                      Some (''Plot '' @ n @ '': Line Charts (8,000 points total)'')\<rparr>,
               g))"

text \<open>\<^verbatim>\<open>bar\<close>: lines 130 to 142.\<close>

fun bar_body :: "'g sampler \<Rightarrow> string list \<Rightarrow> nat \<Rightarrow> figure \<times> 'g \<Rightarrow> figure \<times> 'g" where
  "bar_body smp categories i (fig, g) =
     (let (v0, g1) = draws smp (Exponential 10) 50 g;
          vals = add_scalar v0 (real (i * 5));
          row = i div 2 + 1;
          col = i mod 2 + 1
      in (add_trace fig (Bar categories vals (''Group '' @ decimal_int (int i + 1)))
            (Some (row, col)),
          g1))"

definition bar_plot ::
  "nat \<Rightarrow> 'g sampler \<Rightarrow> int \<Rightarrow> figure \<Rightarrow> 'g \<Rightarrow> error + figure \<times> 'g" where
  "bar_plot maxd smp index fig0 g0 =
     (let categories = map (\<lambda>j. ''Cat_'' @ fmt_0d 3 j) (range_py 50);
          (fig, g) = fold (bar_body smp categories) (range_py 4) (fig0, g0)
      in case str_int maxd (index + 1) of
           Inl e \<Rightarrow> Inl e
         | Inr n \<Rightarrow>
             Inr (fig\<lparr>layout_title :=
                      Some (''Plot '' @ n @ '': Bar Charts (200 bars total)''),
                    layout_showlegend := Some False\<rparr>,
               g))"

text \<open>\<^verbatim>\<open>histogram\<close>: lines 146 to 157.\<close>

fun histogram_body :: "'g sampler \<Rightarrow> nat \<Rightarrow> figure \<times> 'g \<Rightarrow> figure \<times> 'g" where
  "histogram_body smp i (fig, g) =
     (let (data, g1) = draws smp (Normal (real i) 1) 2000 g
      in (add_trace fig
            (Histogram data 50 (''Distribution '' @ decimal_int (int i + 1)) 0.7) None,
          g1))"

definition histogram_plot ::
  "nat \<Rightarrow> 'g sampler \<Rightarrow> int \<Rightarrow> figure \<Rightarrow> 'g \<Rightarrow> error + figure \<times> 'g" where
  "histogram_plot maxd smp index fig0 g0 =
     (let (fig, g) = fold (histogram_body smp) (range_py 3) (fig0, g0)
      in case str_int maxd (index + 1) of
           Inl e \<Rightarrow> Inl e
         | Inr n \<Rightarrow>
             Inr (fig\<lparr>layout_title :=
                      Some (''Plot '' @ n @ '': Histogram (6,000 samples)''),
                    layout_barmode := Some ''overlay''\<rparr>,
               g))"

text \<open>
  \<^verbatim>\<open>box\<close>: lines 161 to 177. The loop carries \<^verbatim>\<open>all_data\<close>, \<^verbatim>\<open>all_categories\<close> and the
  generator; the mean is drawn before the samples. The figure built before the branch is
  replaced by the one of \<^verbatim>\<open>px.box\<close>.
\<close>

fun box_body ::
  "'g sampler \<Rightarrow> string \<Rightarrow> real list \<times> string list \<times> 'g \<Rightarrow> real list \<times> string list \<times> 'g" where
  "box_body smp cat (all_data, all_categories, g) =
     (let (mean, g1) = smp (Uniform (- 2) 2) g;
          (data, g2) = draws smp (Normal mean 1) 200 g1
      in (all_data @ data, all_categories @ replicate (length data) cat, g2))"

definition box_plot ::
  "nat \<Rightarrow> 'g sampler \<Rightarrow> int \<Rightarrow> figure \<Rightarrow> 'g \<Rightarrow> error + figure \<times> 'g" where
  "box_plot maxd smp index fig0 g0 =
     (let categories = map (\<lambda>j. ''Group_'' @ decimal_int (int j)) (range_py 20);
          (all_data, all_categories, g) = fold (box_body smp) categories ([], [], g0)
      in case str_int maxd (index + 1) of
           Inl e \<Rightarrow> Inl e
         | Inr n \<Rightarrow>
             Inr (px_box all_categories all_data
                 (''Plot '' @ n @ '': Box Plots (4,000 samples)''),
               g))"

text \<open>\<^verbatim>\<open>heatmap\<close>: lines 181 to 185.\<close>

definition heatmap_plot ::
  "nat \<Rightarrow> 'g sampler \<Rightarrow> int \<Rightarrow> figure \<Rightarrow> 'g \<Rightarrow> error + figure \<times> 'g" where
  "heatmap_plot maxd smp index fig0 g0 =
     (let (z, g) = draws_matrix smp StandardNormal 100 100 g0;
          fig = add_trace fig0 (Heatmap z ''RdBu_r'' True) None
      in case str_int maxd (index + 1) of
           Inl e \<Rightarrow> Inl e
         | Inr n \<Rightarrow>
             Inr (fig\<lparr>layout_title :=
                      Some (''Plot '' @ n @ '': Heatmap (10,000 cells)'')\<rparr>,
               g))"

text \<open>\<^verbatim>\<open>pie\<close>: lines 189 to 201.\<close>

definition pie_plot ::
  "nat \<Rightarrow> 'g sampler \<Rightarrow> int \<Rightarrow> figure \<Rightarrow> 'g \<Rightarrow> error + figure \<times> 'g" where
  "pie_plot maxd smp index fig0 g0 =
     (let labels = map (\<lambda>j. ''Slice_'' @ fmt_0d 2 j) (range_py 25);
          (vals, g) = draws smp (Exponential 10) 25 g0;
          fig = add_trace fig0 (Pie labels vals ''none'' ''label+percent'') None
      in case str_int maxd (index + 1) of
           Inl e \<Rightarrow> Inl e
         | Inr n \<Rightarrow>
             Inr (fig\<lparr>layout_title :=
                      Some (''Plot '' @ n @ '': Pie Chart (25 slices)'')\<rparr>,
               g))"

text \<open>
  \<^verbatim>\<open>violin\<close>: lines 205 to 221. The categories are the one-character strings \<^verbatim>\<open>"A"\<close> to
  \<^verbatim>\<open>"E"\<close>; the loop runs over their characters, so that \<^verbatim>\<open>ord(cat)\<close> is \<open>of_char\<close>.
\<close>

fun violin_body ::
  "'g sampler \<Rightarrow> char \<Rightarrow> real list \<times> string list \<times> 'g \<Rightarrow> real list \<times> string list \<times> 'g" where
  "violin_body smp cat (all_data, all_categories, g) =
     (let (data, g1) =
            draws smp (Normal (real_of_int (int (of_char cat) - int (of_char CHR ''C''))) 1) 1000 g
      in (all_data @ data, all_categories @ replicate (length data) [cat], g1))"

definition violin_plot ::
  "nat \<Rightarrow> 'g sampler \<Rightarrow> int \<Rightarrow> figure \<Rightarrow> 'g \<Rightarrow> error + figure \<times> 'g" where
  "violin_plot maxd smp index fig0 g0 =
     (let categories = ''ABCDE'';
          (all_data, all_categories, g) = fold (violin_body smp) categories ([], [], g0)
      in case str_int maxd (index + 1) of
           Inl e \<Rightarrow> Inl e
         | Inr n \<Rightarrow>
             Inr (px_violin all_categories all_data
                 (''Plot '' @ n @ '': Violin Plots (5,000 samples)''),
               g))"

text \<open>\<^verbatim>\<open>area\<close>: lines 225 to 244; the first loop fills \<^verbatim>\<open>y_data\<close>, the second adds the traces.\<close>

fun area_data_body :: "'g sampler \<Rightarrow> nat \<Rightarrow> real list list \<times> 'g \<Rightarrow> real list list \<times> 'g" where
  "area_data_body smp i (y_data, g) =
     (let (steps, g1) = draws smp StandardNormal 500 g;
          y = add_scalar (cumsum steps) (real (i * 10))
      in (y_data @ [y], g1))"

definition area_trace_body :: "real list \<Rightarrow> nat \<times> real list \<Rightarrow> figure \<Rightarrow> figure" where
  "area_trace_body x iy fig =
     (case iy of (i, y) \<Rightarrow>
        add_trace fig
          (Scatter x y ''lines'' (''Series '' @ decimal_int (int i + 1)) None
             (Some (if i > 0 then ''tonexty'' else ''tozeroy'')))
          None)"

definition area_plot ::
  "nat \<Rightarrow> 'g sampler \<Rightarrow> int \<Rightarrow> figure \<Rightarrow> 'g \<Rightarrow> error + figure \<times> 'g" where
  "area_plot maxd smp index fig0 g0 =
     (let x = linspace 0 10 500;
          (y_data, g) = fold (area_data_body smp) (range_py 5) ([], g0);
          fig = fold (area_trace_body x) (enumerate 0 y_data) fig0
      in case str_int maxd (index + 1) of
           Inl e \<Rightarrow> Inl e
         | Inr n \<Rightarrow>
             Inr (fig\<lparr>layout_title :=
                      Some (''Plot '' @ n @ '': Area Chart (2,500 points)'')\<rparr>,
               g))"

text \<open>\<^verbatim>\<open>funnel\<close>: lines 248 to 253; \<^verbatim>\<open>np.sort(...)[::-1]\<close> sorts ascending, then reverses.\<close>

definition funnel_plot ::
  "nat \<Rightarrow> 'g sampler \<Rightarrow> int \<Rightarrow> figure \<Rightarrow> 'g \<Rightarrow> error + figure \<times> 'g" where
  "funnel_plot maxd smp index fig0 g0 =
     (let stages = map (\<lambda>j. ''Stage_'' @ fmt_0d 2 j) (range_py 15);
          (v0, g) = draws smp (Exponential 100) 15 g0;
          vals = rev (sort v0);
          fig = add_trace fig0 (Funnel stages vals ''value+percent initial'') None
      in case str_int maxd (index + 1) of
           Inl e \<Rightarrow> Inl e
         | Inr n \<Rightarrow>
             Inr (fig\<lparr>layout_title :=
                      Some (''Plot '' @ n @ '': Funnel Chart (15 stages)'')\<rparr>,
               g))"

text \<open>\<^verbatim>\<open>generate_plot\<close>: the layout first (lines 56 to 69), then the chain of branches.\<close>

definition generate_plot ::
  "nat \<Rightarrow> 'g sampler \<Rightarrow> string \<Rightarrow> int \<Rightarrow> 'g \<Rightarrow> error + (figure \<times> 'g)" where
  "generate_plot maxd smp plot_type index g =
     (let fig =
            (if plot_type \<in> set [''scatter'', ''line'', ''bar'']
             then make_subplots 2 2
                    (map (\<lambda>i. str_title plot_type @ '' '' @ decimal_int (int i + 1)) (range_py 4))
                    False False
             else go_Figure)
      in if plot_type = ''scatter'' then scatter_plot maxd smp index fig g
         else if plot_type = ''line'' then line_plot maxd smp index fig g
         else if plot_type = ''bar'' then bar_plot maxd smp index fig g
         else if plot_type = ''histogram'' then histogram_plot maxd smp index fig g
         else if plot_type = ''box'' then box_plot maxd smp index fig g
         else if plot_type = ''heatmap'' then heatmap_plot maxd smp index fig g
         else if plot_type = ''pie'' then pie_plot maxd smp index fig g
         else if plot_type = ''violin'' then violin_plot maxd smp index fig g
         else if plot_type = ''area'' then area_plot maxd smp index fig g
         else if plot_type = ''funnel'' then funnel_plot maxd smp index fig g
         else Inl (Unknown_Plot_Type (''Unknown plot type: '' @ plot_type)))"

text \<open>
  \<^verbatim>\<open>generate_plots\<close>: \<^verbatim>\<open>for i in range(num_plots)\<close> runs the body on \<open>0, 1, ...\<close> and stops
  at the first exception. \<open>plot_type_at\<close> is line 273; the index is below the length of
  the catalog, so the list access cannot fail.
\<close>

definition plot_type_at :: "nat \<Rightarrow> string" where
  "plot_type_at i = PLOT_TYPES ! (i mod length PLOT_TYPES)"

text \<open>The progress line for the count whose text is \<open>n\<close>.\<close>

definition progress_line :: "string \<Rightarrow> string" where
  "progress_line n = [CHR 0x0A] @ ''--- '' @ n @ '' plots generated ---'' @ [CHR 0x0A]"

definition loop_body :: "nat \<Rightarrow> 'g sampler \<Rightarrow> bool \<Rightarrow> nat \<Rightarrow> 'g world \<Rightarrow> error + 'g world" where
  "loop_body maxd smp show_progress i w =
     (let plot_type = plot_type_at i
      in case generate_plot maxd smp plot_type (int i) (rng w) of
           Inl e \<Rightarrow> Inl e
         | Inr (fig, g) \<Rightarrow>
             (let w1 = w\<lparr>rng := g, events := events w @ [Show_fig fig]\<rparr>
              in if show_progress \<and> (i + 1) mod 10 = 0
                 then (case str_int maxd (int i + 1) of
                         Inl e \<Rightarrow> Inl e
                       | Inr n \<Rightarrow> Inr (w1\<lparr>events := events w1 @ [Print (progress_line n)]\<rparr>))
                 else Inr w1))"

primrec for_each :: "('i \<Rightarrow> 's \<Rightarrow> error + 's) \<Rightarrow> 'i list \<Rightarrow> 's \<Rightarrow> error + 's" where
  "for_each body [] s = Inr s"
| "for_each body (i # is) s =
     (case body i s of
        Inl e \<Rightarrow> Inl e
      | Inr s1 \<Rightarrow> for_each body is s1)"

text \<open>\<^verbatim>\<open>range(n)\<close> is empty for \<open>n \<le> 0\<close>.\<close>

definition generate_plots ::
  "nat \<Rightarrow> 'g sampler \<Rightarrow> environ \<Rightarrow> int option \<Rightarrow> bool \<Rightarrow> 'g world \<Rightarrow> error + 'g world" where
  "generate_plots maxd smp env num_plots show_progress w =
     (case (case num_plots of
              None \<Rightarrow> get_plot_count maxd env w
            | Some n \<Rightarrow> Inr (n, w)) of
        Inl e \<Rightarrow> Inl e
      | Inr (n, w1) \<Rightarrow> for_each (loop_body maxd smp show_progress) (range_py (nat n)) w1)"

subsection \<open>Reading figures and logs\<close>

text \<open>
  What the properties below look at: the kind of a trace, its numeric arrays and its
  categorical array, in the order of the constructor's arguments (the rows, for the
  matrix of a heatmap); the lines printed and the figures shown, in the order of the log.
\<close>

fun trace_kind :: "trace \<Rightarrow> string" where
  "trace_kind (Scattergl x y mode m name showlegend) = ''Scattergl''"
| "trace_kind (Scatter x y mode name width fill) = ''Scatter''"
| "trace_kind (Bar x y name) = ''Bar''"
| "trace_kind (Histogram x nbinsx name opacity) = ''Histogram''"
| "trace_kind (Heatmap z colorscale showscale) = ''Heatmap''"
| "trace_kind (Pie labels vals textinfo hoverinfo) = ''Pie''"
| "trace_kind (Funnel y x textinfo) = ''Funnel''"
| "trace_kind (PxBox x y) = ''px.box''"
| "trace_kind (PxViolin x y) = ''px.violin''"

fun trace_values :: "trace \<Rightarrow> real list list" where
  "trace_values (Scattergl x y mode (Marker sz color colorscale showscale) name showlegend) =
     [x, y, color]"
| "trace_values (Scatter x y mode name width fill) = [x, y]"
| "trace_values (Bar x y name) = [y]"
| "trace_values (Histogram x nbinsx name opacity) = [x]"
| "trace_values (Heatmap z colorscale showscale) = z"
| "trace_values (Pie labels vals textinfo hoverinfo) = [vals]"
| "trace_values (Funnel y x textinfo) = [x]"
| "trace_values (PxBox x y) = [y]"
| "trace_values (PxViolin x y) = [y]"

fun trace_labels :: "trace \<Rightarrow> string list" where
  "trace_labels (Bar x y name) = x"
| "trace_labels (Pie labels vals textinfo hoverinfo) = labels"
| "trace_labels (Funnel y x textinfo) = y"
| "trace_labels (PxBox x y) = x"
| "trace_labels (PxViolin x y) = x"
| "trace_labels (Scattergl x y mode m name showlegend) = []"
| "trace_labels (Scatter x y mode name width fill) = []"
| "trace_labels (Histogram x nbinsx name opacity) = []"
| "trace_labels (Heatmap z colorscale showscale) = []"

fun printed :: "event list \<Rightarrow> string list" where
  "printed [] = []"
| "printed (Print s # es) = s # printed es"
| "printed (e # es) = printed es"

fun shown :: "event list \<Rightarrow> figure list" where
  "shown [] = []"
| "shown (Show_fig fig # es) = fig # shown es"
| "shown (e # es) = shown es"

text \<open>
  The same, read off the result of \<^verbatim>\<open>generate_plot\<close>, trace by trace in the order the
  traces were added; a call that raised has no traces.
\<close>

definition series_kinds :: "error + figure \<times> 'g \<Rightarrow> string list" where
  "series_kinds r = (case r of Inl e \<Rightarrow> [] | Inr (fig, g) \<Rightarrow> map (\<lambda>(t, cell). trace_kind t) (fig_data fig))"

definition series_values :: "error + figure \<times> 'g \<Rightarrow> real list list list" where
  "series_values r = (case r of Inl e \<Rightarrow> [] | Inr (fig, g) \<Rightarrow> map (\<lambda>(t, cell). trace_values t) (fig_data fig))"

definition series_labels :: "error + figure \<times> 'g \<Rightarrow> string list list" where
  "series_labels r = (case r of Inl e \<Rightarrow> [] | Inr (fig, g) \<Rightarrow> map (\<lambda>(t, cell). trace_labels t) (fig_data fig))"

definition series_cells :: "error + figure \<times> 'g \<Rightarrow> (nat \<times> nat) option list" where
  "series_cells r = (case r of Inl e \<Rightarrow> [] | Inr (fig, g) \<Rightarrow> map (\<lambda>(t, cell). cell) (fig_data fig))"

text \<open>The bin count of a histogram and the \<^verbatim>\<open>textinfo\<close> of a pie or funnel, where a trace has one.\<close>

fun trace_nbinsx :: "trace \<Rightarrow> nat option" where
  "trace_nbinsx (Histogram x nbinsx name opacity) = Some nbinsx"
| "trace_nbinsx t = None"

fun trace_textinfo :: "trace \<Rightarrow> string option" where
  "trace_textinfo (Pie labels vals textinfo hoverinfo) = Some textinfo"
| "trace_textinfo (Funnel y x textinfo) = Some textinfo"
| "trace_textinfo t = None"

definition series_nbinsx :: "error + figure \<times> 'g \<Rightarrow> nat option list" where
  "series_nbinsx r = (case r of Inl e \<Rightarrow> [] | Inr (fig, g) \<Rightarrow> map (\<lambda>(t, cell). trace_nbinsx t) (fig_data fig))"

definition series_textinfo :: "error + figure \<times> 'g \<Rightarrow> string option list" where
  "series_textinfo r = (case r of Inl e \<Rightarrow> [] | Inr (fig, g) \<Rightarrow> map (\<lambda>(t, cell). trace_textinfo t) (fig_data fig))"

text \<open>The shape of a trace's numeric arrays: the length of each.\<close>

definition series_sizes :: "error + figure \<times> 'g \<Rightarrow> nat list list" where
  "series_sizes r = map (map length) (series_values r)"

section \<open>Properties\<close>

subsection \<open>The limit on digits\<close>

lemma str_nat_not_Nil: "str_nat n \<noteq> []"
  by (subst str_nat.simps) simp

lemma length_str_nat_less: "n < 10 ^ k \<Longrightarrow> 0 < k \<Longrightarrow> length (str_nat n) \<le> k"
proof (induction k arbitrary: n)
  case 0
  then show ?case by simp
next
  case (Suc k)
  show ?case
  proof (cases "n < 10")
    case True
    then show ?thesis by (subst str_nat.simps) simp
  next
    case False
    then have k: "0 < k" using Suc.prems(1) by (cases k) simp_all
    have "n div 10 < 10 ^ k" using Suc.prems(1) by (simp add: less_mult_imp_div_less mult.commute)
    from Suc.IH [OF this k] False show ?thesis by (subst str_nat.simps) simp
  qed
qed

lemma length_str_nat_ge: "10 ^ k \<le> n \<Longrightarrow> k < length (str_nat n)"
proof (induction k arbitrary: n)
  case 0
  then show ?case using str_nat_not_Nil [of n] by (cases "str_nat n") simp_all
next
  case (Suc k)
  have "(1::nat) \<le> 10 ^ k" by simp
  then have "(10::nat) \<le> 10 * 10 ^ k" by simp
  also have "\<dots> \<le> n" using Suc.prems by simp
  finally have n: "\<not> n < 10" by simp
  have "10 ^ k \<le> n div 10" using Suc.prems by (simp add: less_eq_div_iff_mult_less_eq mult.commute)
  from Suc.IH [OF this] n show ?case by (subst str_nat.simps) simp
qed

lemma not_exceeds_small: "digits \<le> 640 \<Longrightarrow> \<not> exceeds_limit maxd digits"
  by (simp add: exceeds_limit_def)

lemma digits_of_less: "0 \<le> i \<Longrightarrow> i < 10 ^ k \<Longrightarrow> 0 < k \<Longrightarrow> digits_of i \<le> k"
proof -
  assume a: "0 \<le> i" "i < 10 ^ k" "0 < k"
  have "int (nat i) < int (10 ^ k)" using a by simp
  then have "nat i < 10 ^ k" by (simp only: of_nat_less_iff)
  from length_str_nat_less [OF this a(3)] a(1) show ?thesis by (simp add: digits_of_def)
qed

lemma digits_of_ge: "10 ^ k \<le> i \<Longrightarrow> k < digits_of i"
proof -
  assume a: "10 ^ k \<le> i"
  have "(0::int) \<le> 10 ^ k" by simp
  also note a
  finally have i: "0 \<le> i" .
  have "int (10 ^ k) \<le> int (nat i)" using a i by simp
  then have "10 ^ k \<le> nat i" by (simp only: of_nat_le_iff)
  from length_str_nat_ge [OF this] i show ?thesis by (simp add: digits_of_def)
qed

lemma not_exceeds_below: "0 \<le> i \<Longrightarrow> i < 10 ^ 640 \<Longrightarrow> \<not> exceeds_limit maxd (digits_of i)"
proof -
  assume a: "0 \<le> i" "i < 10 ^ 640"
  have "(0::nat) < 640" by simp
  from digits_of_less [OF a this] show ?thesis by (rule not_exceeds_small)
qed

lemma exceeds_power: "640 \<le> k \<Longrightarrow> 0 < maxd \<Longrightarrow> maxd \<le> k \<Longrightarrow> exceeds_limit maxd (digits_of (10 ^ k + 1))"
proof -
  assume a: "640 \<le> k" "0 < maxd" "maxd \<le> k"
  have "(10::int) ^ k \<le> 10 ^ k + 1" by simp
  from digits_of_ge [OF this] a show ?thesis by (simp add: exceeds_limit_def)
qed

lemma str_int_fits:
  "\<not> exceeds_limit maxd (digits_of i) \<Longrightarrow> str_int maxd i = Inr (decimal_int i)"
  by (simp add: str_int_def)

lemma str_int_exceeds:
  "exceeds_limit maxd (digits_of i) \<Longrightarrow> str_int maxd i = Inl Str_Digits_Limit"
  by (simp add: str_int_def)

lemma range_py_0: "range_py 0 = []"
  by (simp add: range_py_def)

lemma range_py_Suc: "range_py (Suc n) = range_py n @ [n]"
  by (simp add: range_py_def)

subsection \<open>Draws and loops\<close>

lemma length_draws: "length (fst (draws smp d n g)) = n"
  by (induction n arbitrary: g) (simp_all add: split_beta)

lemma draws_add:
  "draws smp d (m + n) g =
     (case draws smp d m g of (a, g1) \<Rightarrow>
        (case draws smp d n g1 of (b, g2) \<Rightarrow> (a @ b, g2)))"
  by (induction m arbitrary: g) (simp_all add: split_beta)

lemma fst_draws_add:
  "fst (draws smp d (m + n) g) = fst (draws smp d m g) @ fst (draws smp d n (snd (draws smp d m g)))"
  by (simp add: draws_add split_beta)

lemma snd_draws_add:
  "snd (draws smp d (m + n) g) = snd (draws smp d n (snd (draws smp d m g)))"
  by (simp add: draws_add split_beta)

lemma draws_segment:
  assumes "k + m \<le> n"
  shows "take m (drop k (fst (draws smp d n g))) = fst (draws smp d m (snd (draws smp d k g)))"
proof -
  obtain r where n: "n = k + (m + r)" using assms by (metis add.assoc le_Suc_ex)
  show ?thesis
    unfolding n by (simp add: fst_draws_add snd_draws_add length_draws)
qed

lemma fold_add_traces:
  assumes body: "\<And>i fig g. body i (fig, g) = (add_trace fig (mk i g) (cell i), adv g)"
  shows "fold body (range_py n) (fig, g) =
     (fig\<lparr>fig_data := fig_data fig @ map (\<lambda>i. (mk i ((adv ^^ i) g), cell i)) (range_py n)\<rparr>,
      (adv ^^ n) g)"
proof (induction n)
  case 0
  show ?case by (simp add: range_py_def)
next
  case (Suc n)
  show ?case
    by (simp add: range_py_Suc Suc body add_trace_def)
qed

lemma funpow_draws:
  "((\<lambda>g. snd (draws smp d m g)) ^^ i) g = snd (draws smp d (m * i) g)"
proof (induction i)
  case 0
  show ?case by simp
next
  case (Suc i)
  have "m * Suc i = m * i + m" by simp
  then show ?case using Suc by (simp add: snd_draws_add del: mult_Suc_right)
qed

lemma scatter_body_eq:
  "scatter_body smp i (fig, g) =
     (add_trace fig
        (Scattergl
           (add_scalar (fst (draws smp StandardNormal 1000 g)) (real ((i mod 10) * 2)))
           (add_scalar (fst (draws smp StandardNormal 1000 (snd (draws smp StandardNormal 1000 g))))
              (real ((i div 10) * 2)))
           ''markers''
           (Marker 2 (fst (draws smp StandardNormal 1000 (snd (draws smp StandardNormal 2000 g))))
              ''Viridis'' False)
           (''Dataset '' @ decimal_int (int i + 1)) False)
        (Some ((i mod 4) div 2 + 1, (i mod 4) mod 2 + 1)),
      snd (draws smp StandardNormal 3000 g))"
proof -
  have a: "snd (draws smp StandardNormal 2000 g) =
             snd (draws smp StandardNormal 1000 (snd (draws smp StandardNormal 1000 g)))"
    using snd_draws_add [of smp StandardNormal 1000 1000 g] by simp
  have b: "snd (draws smp StandardNormal 3000 g) =
             snd (draws smp StandardNormal 1000 (snd (draws smp StandardNormal 2000 g)))"
    using snd_draws_add [of smp StandardNormal 2000 1000 g] by simp
  show ?thesis
    by (simp add: Let_def split_beta a b)
qed

lemma scatter_fold:
  "fold (scatter_body smp) (range_py n) (fig, g) =
     (fig\<lparr>fig_data := fig_data fig @
         map (\<lambda>i. (Scattergl
                 (add_scalar (fst (draws smp StandardNormal 1000 (snd (draws smp StandardNormal (3000 * i) g))))
                    (real ((i mod 10) * 2)))
                 (add_scalar (fst (draws smp StandardNormal 1000 (snd (draws smp StandardNormal (3000 * i + 1000) g))))
                    (real ((i div 10) * 2)))
                 ''markers''
                 (Marker 2 (fst (draws smp StandardNormal 1000 (snd (draws smp StandardNormal (3000 * i + 2000) g)))) ''Viridis'' False)
                 (''Dataset '' @ decimal_int (int i + 1)) False,
               Some ((i mod 4) div 2 + 1, (i mod 4) mod 2 + 1))) (range_py n)\<rparr>,
      snd (draws smp StandardNormal (3000 * n) g))"
proof -
  have a: "snd (draws smp StandardNormal 1000 (snd (draws smp StandardNormal (3000 * i) g))) =
           snd (draws smp StandardNormal (3000 * i + 1000) g)" for i
    by (simp add: snd_draws_add)
  have b: "snd (draws smp StandardNormal 2000 (snd (draws smp StandardNormal (3000 * i) g))) =
           snd (draws smp StandardNormal (3000 * i + 2000) g)" for i
    by (simp add: snd_draws_add)
  show ?thesis
    by (simp add: fold_add_traces [OF scatter_body_eq] funpow_draws a b)
qed

lemma range_py_4: "range_py 4 = [0, 1, 2, 3]"
  by (simp add: range_py_def upt_rec)

lemma range_py_3: "range_py 3 = [0, 1, 2]"
  by (simp add: range_py_def upt_rec)

lemma range_py_5: "range_py 5 = [0, 1, 2, 3, 4]"
  by (simp add: range_py_def upt_rec)

lemma length_range_py: "length (range_py n) = n"
  by (simp add: range_py_def)

lemma length_add_scalar: "length (add_scalar xs c) = length xs"
  by (simp add: add_scalar_def)

lemma length_linspace: "length (linspace a b n) = n"
  by (simp add: linspace_def length_range_py)

lemma length_cumsum_from: "length (cumsum_from acc vs) = length vs"
  by (induction vs arbitrary: acc) simp_all

lemma length_cumsum: "length (cumsum vs) = length vs"
  by (simp add: cumsum_def length_cumsum_from)

lemma length_draws_matrix: "length (fst (draws_matrix smp d r c g)) = r"
  by (induction r arbitrary: g) (simp_all add: split_beta)

lemma rows_draws_matrix: "row \<in> set (fst (draws_matrix smp d r c g)) \<Longrightarrow> length row = c"
  by (induction r arbitrary: g) (auto simp: split_beta length_draws)

lemma scatter_plot_eq:
  "scatter_plot maxd smp index fig g =
     (case str_int maxd (index + 1) of
        Inl e \<Rightarrow> Inl e
      | Inr n \<Rightarrow> Inr
     (fig\<lparr>fig_data := fig_data fig @
         map (\<lambda>i. (Scattergl
                 (add_scalar (fst (draws smp StandardNormal 1000 (snd (draws smp StandardNormal (3000 * i) g))))
                    (real ((i mod 10) * 2)))
                 (add_scalar (fst (draws smp StandardNormal 1000 (snd (draws smp StandardNormal (3000 * i + 1000) g))))
                    (real ((i div 10) * 2)))
                 ''markers''
                 (Marker 2 (fst (draws smp StandardNormal 1000 (snd (draws smp StandardNormal (3000 * i + 2000) g)))) ''Viridis'' False)
                 (''Dataset '' @ decimal_int (int i + 1)) False,
               Some ((i mod 4) div 2 + 1, (i mod 4) mod 2 + 1))) (range_py 50),
        layout_title := Some (''Plot '' @ n @
                       '': Scatter Plots (50 traces, 50,000 points total)''),
        layout_showlegend := Some False\<rparr>,
      snd (draws smp StandardNormal 150000 g)))"
  by (simp add: scatter_plot_def scatter_fold split: sum.splits)

lemma line_body_eq:
  "line_body smp i (fig, g) =
     (add_trace fig
        (Scatter (linspace 0 10 2000)
           (map2 (\<lambda>xv nv. sin (xv + real i * pi / 4) * exp (- xv / 10) + 0.1 * nv)
              (linspace 0 10 2000) (fst (draws smp StandardNormal 2000 g)))
           ''lines'' (''Signal '' @ decimal_int (int i + 1)) (Some 1.5) None)
        (Some (i div 2 + 1, i mod 2 + 1)),
      snd (draws smp StandardNormal 2000 g))"
  by (simp add: Let_def split_beta)

lemma line_plot_eq:
  "line_plot maxd smp index fig g =
     (case str_int maxd (index + 1) of
        Inl e \<Rightarrow> Inl e
      | Inr n \<Rightarrow> Inr
     (fig\<lparr>fig_data := fig_data fig @
         map (\<lambda>i. (Scatter (linspace 0 10 2000)
                 (map2 (\<lambda>xv nv. sin (xv + real i * pi / 4) * exp (- xv / 10) + 0.1 * nv)
                    (linspace 0 10 2000)
                    (fst (draws smp StandardNormal 2000 (snd (draws smp StandardNormal (2000 * i) g)))))
                 ''lines'' (''Signal '' @ decimal_int (int i + 1)) (Some 1.5) None,
               Some (i div 2 + 1, i mod 2 + 1))) (range_py 4),
        layout_title := Some (''Plot '' @ n @ '': Line Charts (8,000 points total)'')\<rparr>,
      snd (draws smp StandardNormal 8000 g)))"
  by (simp add: line_plot_def fold_add_traces [OF line_body_eq] funpow_draws split: sum.splits)

lemma bar_body_eq:
  "bar_body smp categories i (fig, g) =
     (add_trace fig
        (Bar categories (add_scalar (fst (draws smp (Exponential 10) 50 g)) (real (i * 5)))
           (''Group '' @ decimal_int (int i + 1)))
        (Some (i div 2 + 1, i mod 2 + 1)),
      snd (draws smp (Exponential 10) 50 g))"
  by (simp add: Let_def split_beta)

lemma bar_plot_eq:
  "bar_plot maxd smp index fig g =
     (case str_int maxd (index + 1) of
        Inl e \<Rightarrow> Inl e
      | Inr n \<Rightarrow> Inr
     (fig\<lparr>fig_data := fig_data fig @
         map (\<lambda>i. (Bar (map (\<lambda>j. ''Cat_'' @ fmt_0d 3 j) (range_py 50))
                 (add_scalar (fst (draws smp (Exponential 10) 50 (snd (draws smp (Exponential 10) (50 * i) g))))
                    (real (i * 5)))
                 (''Group '' @ decimal_int (int i + 1)),
               Some (i div 2 + 1, i mod 2 + 1))) (range_py 4),
        layout_title := Some (''Plot '' @ n @ '': Bar Charts (200 bars total)''),
        layout_showlegend := Some False\<rparr>,
      snd (draws smp (Exponential 10) 200 g)))"
  by (simp add: bar_plot_def Let_def fold_add_traces [OF bar_body_eq] funpow_draws split: sum.splits)

subsection \<open>The scatter figure\<close>

lemma generate_plot_scatter:
  "generate_plot maxd smp ''scatter'' index g =
     scatter_plot maxd smp index
       (make_subplots 2 2 (map (\<lambda>i. str_title ''scatter'' @ '' '' @ decimal_int (int i + 1)) (range_py 4))
          False False) g"
  by (simp add: generate_plot_def)

lemma fig_data_make_subplots: "fig_data (make_subplots r c ts sx sy) = []"
  by (simp add: make_subplots_def go_Figure_def)

lemma series_values_scatter:
  "\<not> exceeds_limit maxd (digits_of (index + 1)) \<Longrightarrow>
   series_values (generate_plot maxd smp ''scatter'' index g) =
     map (\<lambda>i. [add_scalar (fst (draws smp StandardNormal 1000 (snd (draws smp StandardNormal (3000 * i) g))))
                    (real ((i mod 10) * 2)),
                add_scalar (fst (draws smp StandardNormal 1000 (snd (draws smp StandardNormal (3000 * i + 1000) g))))
                    (real ((i div 10) * 2)),
                fst (draws smp StandardNormal 1000 (snd (draws smp StandardNormal (3000 * i + 2000) g)))])
       (range_py 50)"
  by (simp add: generate_plot_scatter scatter_plot_eq str_int_fits series_values_def
      fig_data_make_subplots comp_def)

text \<open>
  C2, as the code has it. When the call returns, that is when the title can be
  formatted, the scatter figure has exactly 50 traces, all \<^verbatim>\<open>Scattergl\<close>,
  each with 1000 x values, 1000 y values and 1000 colours: 50,000 points. The 150,000
  standard normal draws are used once each, in order: series \<open>i\<close> takes three
  consecutive blocks of 1000, the first for x, shifted by \<open>2 * (i mod 10)\<close>, the second
  for y, shifted by \<open>2 * (i div 10)\<close>, the third for the colours. The shift is twice
  what the claim states.
\<close>

theorem scatter_series:
  assumes "\<not> exceeds_limit maxd (digits_of (index + 1))"
  shows
  "series_kinds (generate_plot maxd smp ''scatter'' index g) = replicate 50 ''Scattergl'' \<and>
   series_sizes (generate_plot maxd smp ''scatter'' index g) = replicate 50 [1000, 1000, 1000] \<and>
   series_values (generate_plot maxd smp ''scatter'' index g) =
     map (\<lambda>i. [add_scalar (take 1000 (drop (3000 * i) (fst (draws smp StandardNormal 150000 g))))
                  (real (2 * (i mod 10))),
                add_scalar (take 1000 (drop (3000 * i + 1000) (fst (draws smp StandardNormal 150000 g))))
                  (real (2 * (i div 10))),
                take 1000 (drop (3000 * i + 2000) (fst (draws smp StandardNormal 150000 g)))])
       [0..<50]"
proof -
  have k: "series_kinds (generate_plot maxd smp ''scatter'' index g) = replicate 50 ''Scattergl''"
    by (simp add: generate_plot_scatter scatter_plot_eq str_int_fits [OF assms] series_kinds_def
        fig_data_make_subplots comp_def map_replicate_const length_range_py)
  have s: "series_sizes (generate_plot maxd smp ''scatter'' index g) = replicate 50 [1000, 1000, 1000]"
    by (simp add: series_sizes_def series_values_scatter [OF assms] comp_def length_add_scalar
        length_draws map_replicate_const length_range_py)
  have v: "series_values (generate_plot maxd smp ''scatter'' index g) =
     map (\<lambda>i. [add_scalar (take 1000 (drop (3000 * i) (fst (draws smp StandardNormal 150000 g))))
                  (real (2 * (i mod 10))),
                add_scalar (take 1000 (drop (3000 * i + 1000) (fst (draws smp StandardNormal 150000 g))))
                  (real (2 * (i div 10))),
                take 1000 (drop (3000 * i + 2000) (fst (draws smp StandardNormal 150000 g)))])
       [0..<50]"
    unfolding series_values_scatter [OF assms] range_py_def
  proof (rule map_cong [OF refl])
    fix i assume "i \<in> set [0..<50]"
    then have i: "i < 50" by simp
    have s1: "take 1000 (drop (3000 * i) (fst (draws smp StandardNormal 150000 g))) =
                fst (draws smp StandardNormal 1000 (snd (draws smp StandardNormal (3000 * i) g)))"
      using i by (intro draws_segment) simp
    have s2: "take 1000 (drop (3000 * i + 1000) (fst (draws smp StandardNormal 150000 g))) =
                fst (draws smp StandardNormal 1000 (snd (draws smp StandardNormal (3000 * i + 1000) g)))"
      using i by (intro draws_segment) simp
    have s3: "take 1000 (drop (3000 * i + 2000) (fst (draws smp StandardNormal 150000 g))) =
                fst (draws smp StandardNormal 1000 (snd (draws smp StandardNormal (3000 * i + 2000) g)))"
      using i by (intro draws_segment) simp
    have m: "i mod 10 * 2 = 2 * (i mod 10)" "i div 10 * 2 = 2 * (i div 10)" by simp_all
    show "[add_scalar (fst (draws smp StandardNormal 1000 (snd (draws smp StandardNormal (3000 * i) g))))
                    (real ((i mod 10) * 2)),
                add_scalar (fst (draws smp StandardNormal 1000 (snd (draws smp StandardNormal (3000 * i + 1000) g))))
                    (real ((i div 10) * 2)),
                fst (draws smp StandardNormal 1000 (snd (draws smp StandardNormal (3000 * i + 2000) g)))] =
          [add_scalar (take 1000 (drop (3000 * i) (fst (draws smp StandardNormal 150000 g))))
                  (real (2 * (i mod 10))),
                add_scalar (take 1000 (drop (3000 * i + 1000) (fst (draws smp StandardNormal 150000 g))))
                  (real (2 * (i div 10))),
                take 1000 (drop (3000 * i + 2000) (fst (draws smp StandardNormal 150000 g)))]"
      by (simp only: s1 s2 s3 m)
  qed
  show ?thesis by (intro conjI k s v)
qed

lemma fits_small: "0 \<le> i \<Longrightarrow> i \<le> 1000 \<Longrightarrow> \<not> exceeds_limit maxd (digits_of i)"
proof -
  assume a: "0 \<le> i" "i \<le> 1000"
  have "(10::int) ^ 3 < 10 ^ 640" by (rule power_strict_increasing) simp_all
  moreover have "i \<le> 10 ^ 3" using a(2) by simp
  ultimately have "i < 10 ^ 640" by (rule le_less_trans [rotated])
  with a(1) show ?thesis by (rule not_exceeds_below)
qed

theorem scatter_series_witness:
  "\<not> exceeds_limit 4300 (digits_of (0 + 1)) \<and>
   series_kinds (generate_plot 4300 counter_smp ''scatter'' 0 0) = replicate 50 ''Scattergl'' \<and>
   series_sizes (generate_plot 4300 counter_smp ''scatter'' 0 0) = replicate 50 [1000, 1000, 1000]"
proof -
  have f: "\<not> exceeds_limit 4300 (digits_of (0 + 1))" by (rule fits_small) simp_all
  from scatter_series [OF f, of counter_smp 0]
  have "series_kinds (generate_plot 4300 counter_smp ''scatter'' 0 0) = replicate 50 ''Scattergl''"
    and "series_sizes (generate_plot 4300 counter_smp ''scatter'' 0 0) = replicate 50 [1000, 1000, 1000]"
    by (rule conjunct1, rule conjunct2 [THEN conjunct1])
  with f show ?thesis by (intro conjI)
qed

lemma draws_counter_StandardNormal:
  "draws counter_smp StandardNormal n g = (replicate n 0, g + n)"
  by (induction n arbitrary: g) (simp_all add: counter_smp_def)

text \<open>
  C2, as the claim states it, fails: with a generator whose standard normal draws are
  all 0 (and the interpreter's usual limit of 4300 digits), the x values of series 1 are
  not the draws shifted by \<open>1 mod 10\<close> (they are shifted by 2).
\<close>

theorem scatter_offset_counterexample:
  "series_values (generate_plot 4300 counter_smp ''scatter'' 0 0) ! 1 \<noteq>
     [add_scalar (take 1000 (drop 3000 (fst (draws counter_smp StandardNormal 150000 0)))) (real (1 mod 10)),
      add_scalar (take 1000 (drop 4000 (fst (draws counter_smp StandardNormal 150000 0)))) (real (1 div 10)),
      take 1000 (drop 5000 (fst (draws counter_smp StandardNormal 150000 0)))]"
proof -
  have f: "\<not> exceeds_limit 4300 (digits_of (0 + 1))" by (rule fits_small) simp_all
  have "series_values (generate_plot 4300 counter_smp ''scatter'' 0 0) ! 1 =
          [replicate 1000 2, replicate 1000 0, replicate 1000 0]"
    by (simp add: series_values_scatter [OF f] range_py_def draws_counter_StandardNormal
        add_scalar_def del: upt_Suc)
  moreover have "add_scalar (take 1000 (drop 3000 (fst (draws counter_smp StandardNormal 150000 0)))) (real (1 mod 10))
        = replicate 1000 1"
    by (simp add: draws_counter_StandardNormal add_scalar_def)
  ultimately show ?thesis by (simp add: replicate_eq_replicate)
qed

subsection \<open>The other figures\<close>

lemma generate_plot_line:
  "generate_plot maxd smp ''line'' index g =
     line_plot maxd smp index
       (make_subplots 2 2 (map (\<lambda>i. str_title ''line'' @ '' '' @ decimal_int (int i + 1)) (range_py 4))
          False False) g"
  by (simp add: generate_plot_def)

lemma generate_plot_bar:
  "generate_plot maxd smp ''bar'' index g =
     bar_plot maxd smp index
       (make_subplots 2 2 (map (\<lambda>i. str_title ''bar'' @ '' '' @ decimal_int (int i + 1)) (range_py 4))
          False False) g"
  by (simp add: generate_plot_def)

lemma generate_plot_single:
  "generate_plot maxd smp ''histogram'' index g = histogram_plot maxd smp index go_Figure g"
  "generate_plot maxd smp ''box'' index g = box_plot maxd smp index go_Figure g"
  "generate_plot maxd smp ''heatmap'' index g = heatmap_plot maxd smp index go_Figure g"
  "generate_plot maxd smp ''pie'' index g = pie_plot maxd smp index go_Figure g"
  "generate_plot maxd smp ''violin'' index g = violin_plot maxd smp index go_Figure g"
  "generate_plot maxd smp ''area'' index g = area_plot maxd smp index go_Figure g"
  "generate_plot maxd smp ''funnel'' index g = funnel_plot maxd smp index go_Figure g"
  by (simp_all add: generate_plot_def)

lemma fig_data_go_Figure: "fig_data go_Figure = []"
  by (simp add: go_Figure_def)

lemma box_fold:
  "\<exists>D g'. fold (box_body smp) cats (d, c, g) = (d @ D, c @ concat (map (replicate 200) cats), g') \<and>
     length D = 200 * length cats"
proof (induction cats arbitrary: d c g)
  case Nil
  show ?case by simp
next
  case (Cons a cats)
  obtain m g1 where m: "smp (Uniform (- 2) 2) g = (m, g1)" by (cases "smp (Uniform (- 2) 2) g")
  obtain da g2 where da: "draws smp (Normal m 1) 200 g1 = (da, g2)"
    by (cases "draws smp (Normal m 1) 200 g1")
  have l: "length da = 200" using length_draws [of smp "Normal m 1" 200 g1] da by simp
  from Cons [of "d @ da" "c @ replicate 200 a" g2] obtain D g' where
    D: "fold (box_body smp) cats (d @ da, c @ replicate 200 a, g2) =
          ((d @ da) @ D, (c @ replicate 200 a) @ concat (map (replicate 200) cats), g')"
       "length D = 200 * length cats" by blast
  have "fold (box_body smp) (a # cats) (d, c, g) =
          (d @ (da @ D), c @ concat (map (replicate 200) (a # cats)), g')"
    using D(1) by (simp add: m da l)
  moreover have "length (da @ D) = 200 * length (a # cats)" using l D(2) by simp
  ultimately show ?case by blast
qed

lemma violin_fold:
  "\<exists>D g'. fold (violin_body smp) cats (d, c, g) =
       (d @ D, c @ concat (map (\<lambda>ch. replicate 1000 [ch]) cats), g') \<and>
     length D = 1000 * length cats"
proof (induction cats arbitrary: d c g)
  case Nil
  show ?case by simp
next
  case (Cons a cats)
  define da where
    "da = fst (draws smp (Normal (real_of_int (int (of_char a) - int (of_char CHR ''C''))) 1) 1000 g)"
  define g2 where
    "g2 = snd (draws smp (Normal (real_of_int (int (of_char a) - int (of_char CHR ''C''))) 1) 1000 g)"
  have l: "length da = 1000" by (simp add: da_def length_draws)
  have step: "violin_body smp a (d, c, g) = (d @ da, c @ replicate 1000 [a], g2)"
    using l by (simp add: split_beta da_def g2_def)
  from Cons [of "d @ da" "c @ replicate 1000 [a]" g2] obtain D g' where
    D: "fold (violin_body smp) cats (d @ da, c @ replicate 1000 [a], g2) =
          ((d @ da) @ D, (c @ replicate 1000 [a]) @ concat (map (\<lambda>ch. replicate 1000 [ch]) cats), g')"
       "length D = 1000 * length cats" by blast
  have "fold (violin_body smp) (a # cats) (d, c, g) =
          (d @ (da @ D), c @ concat (map (\<lambda>ch. replicate 1000 [ch]) (a # cats)), g')"
    using D(1) by (simp only: fold_Cons comp_apply step) simp
  moreover have "length (da @ D) = 1000 * length (a # cats)" using l D(2) by simp
  ultimately show ?case by blast
qed

lemma area_data_fold:
  "\<exists>ys g'. fold (area_data_body smp) is (acc, g) = (acc @ ys, g') \<and>
     map length ys = replicate (length is) 500"
proof (induction "is" arbitrary: acc g)
  case Nil
  show ?case by simp
next
  case (Cons i "is")
  obtain st g1 where st: "draws smp StandardNormal 500 g = (st, g1)"
    by (cases "draws smp StandardNormal 500 g")
  have l: "length st = 500" using length_draws [of smp StandardNormal 500 g] st by simp
  from Cons [of "acc @ [add_scalar (cumsum st) (real (i * 10))]" g1] obtain ys g' where
    ys: "fold (area_data_body smp) is (acc @ [add_scalar (cumsum st) (real (i * 10))], g1) =
          ((acc @ [add_scalar (cumsum st) (real (i * 10))]) @ ys, g')"
        "map length ys = replicate (length is) 500" by blast
  have "fold (area_data_body smp) (i # is) (acc, g) =
          (acc @ (add_scalar (cumsum st) (real (i * 10)) # ys), g')"
    using ys(1) by (simp add: st)
  moreover have "map length (add_scalar (cumsum st) (real (i * 10)) # ys) =
      replicate (length (i # is)) 500"
    using ys(2) l by (simp add: length_add_scalar length_cumsum)
  ultimately show ?case by blast
qed

lemma area_trace_fold:
  "fold (area_trace_body x) iys fig =
     fig\<lparr>fig_data := fig_data fig @
       map (\<lambda>(i, y). (Scatter x y ''lines'' (''Series '' @ decimal_int (int i + 1)) None
                        (Some (if i > 0 then ''tonexty'' else ''tozeroy'')), None)) iys\<rparr>"
  by (induction iys arbitrary: fig) (simp_all add: area_trace_body_def add_trace_def split_beta)

lemma histogram_fold:
  "fold (histogram_body smp) (range_py 3) (fig, g) =
     (fig\<lparr>fig_data := fig_data fig @
        [(Histogram (fst (draws smp (Normal 0 1) 2000 g)) 50 (''Distribution '' @ decimal_int 1) 0.7, None),
         (Histogram (fst (draws smp (Normal 1 1) 2000 (snd (draws smp (Normal 0 1) 2000 g)))) 50
            (''Distribution '' @ decimal_int 2) 0.7, None),
         (Histogram (fst (draws smp (Normal 2 1) 2000
             (snd (draws smp (Normal 1 1) 2000 (snd (draws smp (Normal 0 1) 2000 g)))))) 50
            (''Distribution '' @ decimal_int 3) 0.7, None)]\<rparr>,
      snd (draws smp (Normal 2 1) 2000
             (snd (draws smp (Normal 1 1) 2000 (snd (draws smp (Normal 0 1) 2000 g))))))"
  by (simp add: range_py_3 split_beta add_trace_def)

lemma replicate_3: "replicate 3 x = [x, x, x]"
  by (simp add: numeral_3_eq_3)

lemma series_histogram:
  assumes fits: "\<not> exceeds_limit maxd (digits_of (index + 1))"
  shows
  "series_kinds (generate_plot maxd smp ''histogram'' index g) = replicate 3 ''Histogram''"
  "series_sizes (generate_plot maxd smp ''histogram'' index g) = replicate 3 [2000]"
  "series_nbinsx (generate_plot maxd smp ''histogram'' index g) = replicate 3 (Some 50)"
  by (simp_all add: generate_plot_single histogram_plot_def histogram_fold str_int_fits [OF fits]
      length_draws series_kinds_def series_sizes_def series_values_def series_nbinsx_def
      fig_data_go_Figure replicate_3)

lemma replicate_4: "replicate 4 x = [x, x, x, x]"
  by (simp add: eval_nat_numeral)

lemma replicate_5: "replicate 5 x = [x, x, x, x, x]"
  by (simp add: eval_nat_numeral)

lemma series_line:
  assumes fits: "\<not> exceeds_limit maxd (digits_of (index + 1))"
  shows
  "series_kinds (generate_plot maxd smp ''line'' index g) = replicate 4 ''Scatter''"
  "series_sizes (generate_plot maxd smp ''line'' index g) = replicate 4 [2000, 2000]"
  "series_cells (generate_plot maxd smp ''line'' index g) =
     [Some (1, 1), Some (1, 2), Some (2, 1), Some (2, 2)]"
  by (simp_all add: generate_plot_line line_plot_eq str_int_fits [OF fits] range_py_4 fig_data_make_subplots
      series_kinds_def series_sizes_def series_values_def series_cells_def
      length_linspace length_draws replicate_4)

lemma series_bar:
  assumes fits: "\<not> exceeds_limit maxd (digits_of (index + 1))"
  shows
  "series_kinds (generate_plot maxd smp ''bar'' index g) = replicate 4 ''Bar''"
  "series_sizes (generate_plot maxd smp ''bar'' index g) = replicate 4 [50]"
  "map length (series_labels (generate_plot maxd smp ''bar'' index g)) = replicate 4 50"
  "series_cells (generate_plot maxd smp ''bar'' index g) =
     [Some (1, 1), Some (1, 2), Some (2, 1), Some (2, 2)]"
  by (simp_all add: generate_plot_bar bar_plot_eq str_int_fits [OF fits] range_py_4 fig_data_make_subplots
      series_kinds_def series_sizes_def series_values_def series_cells_def series_labels_def
      length_add_scalar length_draws length_range_py replicate_4)

lemma map_length_draws_matrix: "map length (fst (draws_matrix smp d r c g)) = replicate r c"
  by (induction r arbitrary: g) (simp_all add: split_beta length_draws)

lemma series_heatmap:
  assumes fits: "\<not> exceeds_limit maxd (digits_of (index + 1))"
  shows
  "series_kinds (generate_plot maxd smp ''heatmap'' index g) = [''Heatmap'']"
  "series_sizes (generate_plot maxd smp ''heatmap'' index g) = [replicate 100 100]"
  by (simp_all add: generate_plot_single heatmap_plot_def str_int_fits [OF fits] split_beta add_trace_def
      fig_data_go_Figure series_kinds_def series_sizes_def series_values_def
      map_length_draws_matrix)

lemma series_pie:
  assumes fits: "\<not> exceeds_limit maxd (digits_of (index + 1))"
  shows
  "series_kinds (generate_plot maxd smp ''pie'' index g) = [''Pie'']"
  "series_sizes (generate_plot maxd smp ''pie'' index g) = [[25]]"
  "map length (series_labels (generate_plot maxd smp ''pie'' index g)) = [25]"
  by (simp_all add: generate_plot_single pie_plot_def str_int_fits [OF fits] split_beta add_trace_def Let_def
      fig_data_go_Figure series_kinds_def series_sizes_def series_values_def series_labels_def
      length_draws length_range_py)

lemma series_funnel:
  assumes fits: "\<not> exceeds_limit maxd (digits_of (index + 1))"
  shows
  "series_kinds (generate_plot maxd smp ''funnel'' index g) = [''Funnel'']"
  "series_sizes (generate_plot maxd smp ''funnel'' index g) = [[15]]"
  "series_labels (generate_plot maxd smp ''funnel'' index g) =
     [map (\<lambda>j. ''Stage_'' @ fmt_0d 2 j) (range_py 15)]"
  "series_values (generate_plot maxd smp ''funnel'' index g) =
     [[rev (sort (fst (draws smp (Exponential 100) 15 g)))]]"
  "series_textinfo (generate_plot maxd smp ''funnel'' index g) = [Some ''value+percent initial'']"
  by (simp_all add: generate_plot_single funnel_plot_def str_int_fits [OF fits] split_beta add_trace_def Let_def
      fig_data_go_Figure series_kinds_def series_sizes_def series_values_def series_labels_def
      series_textinfo_def length_draws)

lemma box_categories:
  "map (\<lambda>j. ''Group_'' @ decimal_int (int j)) (range_py 20) =
     [''Group_0'', ''Group_1'', ''Group_2'', ''Group_3'', ''Group_4'', ''Group_5'', ''Group_6'',
      ''Group_7'', ''Group_8'', ''Group_9'', ''Group_10'', ''Group_11'', ''Group_12'', ''Group_13'',
      ''Group_14'', ''Group_15'', ''Group_16'', ''Group_17'', ''Group_18'', ''Group_19'']"
  by code_simp

lemma funnel_stages:
  "map (\<lambda>j. ''Stage_'' @ fmt_0d 2 j) (range_py 15) =
     [''Stage_00'', ''Stage_01'', ''Stage_02'', ''Stage_03'', ''Stage_04'', ''Stage_05'', ''Stage_06'',
      ''Stage_07'', ''Stage_08'', ''Stage_09'', ''Stage_10'', ''Stage_11'', ''Stage_12'', ''Stage_13'',
      ''Stage_14'']"
  by code_simp

lemma series_box:
  assumes fits: "\<not> exceeds_limit maxd (digits_of (index + 1))"
  shows
  "series_kinds (generate_plot maxd smp ''box'' index g) = [''px.box'']"
  "series_sizes (generate_plot maxd smp ''box'' index g) = [[4000]]"
  "series_labels (generate_plot maxd smp ''box'' index g) =
     [concat (map (replicate 200) (map (\<lambda>j. ''Group_'' @ decimal_int (int j)) (range_py 20)))]"
proof -
  let ?cats = "map (\<lambda>j. ''Group_'' @ decimal_int (int j)) (range_py 20)"
  from box_fold [of smp ?cats "[]" "[]" g] obtain D g' where
    D: "fold (box_body smp) ?cats ([], [], g) = (D, concat (map (replicate 200) ?cats), g')"
       "length D = 200 * length ?cats" by auto
  have l: "length D = 4000" using D(2) by (simp add: length_range_py)
  have b: "box_plot maxd smp index go_Figure g =
      Inr (px_box (concat (map (replicate 200) ?cats)) D
         (''Plot '' @ decimal_int (index + 1) @ '': Box Plots (4,000 samples)''), g')"
    by (simp only: box_plot_def Let_def D(1) prod.case str_int_fits [OF fits] sum.case)
  show "series_kinds (generate_plot maxd smp ''box'' index g) = [''px.box'']"
    "series_sizes (generate_plot maxd smp ''box'' index g) = [[4000]]"
    "series_labels (generate_plot maxd smp ''box'' index g) = [concat (map (replicate 200) ?cats)]"
    by (simp_all add: generate_plot_single b px_box_def add_trace_def fig_data_go_Figure l
        series_kinds_def series_sizes_def series_values_def series_labels_def)
qed

lemma series_violin:
  assumes fits: "\<not> exceeds_limit maxd (digits_of (index + 1))"
  shows
  "series_kinds (generate_plot maxd smp ''violin'' index g) = [''px.violin'']"
  "series_sizes (generate_plot maxd smp ''violin'' index g) = [[5000]]"
  "series_labels (generate_plot maxd smp ''violin'' index g) =
     [concat (map (replicate 1000) [''A'', ''B'', ''C'', ''D'', ''E''])]"
proof -
  from violin_fold [of smp "''ABCDE''" "[]" "[]" g] obtain D g' where
    D: "fold (violin_body smp) ''ABCDE'' ([], [], g) =
          (D, concat (map (\<lambda>ch. replicate 1000 [ch]) ''ABCDE''), g')"
       "length D = 1000 * length ''ABCDE''" by auto
  have l: "length D = 5000" using D(2) by simp
  have b: "violin_plot maxd smp index go_Figure g =
      Inr (px_violin (concat (map (\<lambda>ch. replicate 1000 [ch]) ''ABCDE'')) D
         (''Plot '' @ decimal_int (index + 1) @ '': Violin Plots (5,000 samples)''), g')"
    by (simp only: violin_plot_def Let_def D(1) prod.case str_int_fits [OF fits] sum.case)
  show "series_kinds (generate_plot maxd smp ''violin'' index g) = [''px.violin'']"
    "series_sizes (generate_plot maxd smp ''violin'' index g) = [[5000]]"
    "series_labels (generate_plot maxd smp ''violin'' index g) =
       [concat (map (replicate 1000) [''A'', ''B'', ''C'', ''D'', ''E''])]"
    by (simp_all add: generate_plot_single b px_violin_def add_trace_def fig_data_go_Figure l
        series_kinds_def series_sizes_def series_values_def series_labels_def)
qed

lemma series_area:
  assumes fits: "\<not> exceeds_limit maxd (digits_of (index + 1))"
  shows
  "series_kinds (generate_plot maxd smp ''area'' index g) = replicate 5 ''Scatter''"
  "series_sizes (generate_plot maxd smp ''area'' index g) = replicate 5 [500, 500]"
proof -
  from area_data_fold [of smp "range_py 5" "[]" g] obtain ys g' where
    ys: "fold (area_data_body smp) (range_py 5) ([], g) = (ys, g')"
        "map length ys = replicate 5 500" by (auto simp: length_range_py)
  from ys(2) have "length (map length ys) = 5" by simp
  then have n: "length ys = 5" by simp
  have b: "area_plot maxd smp index go_Figure g =
      Inr ((fold (area_trace_body (linspace 0 10 500)) (enumerate 0 ys) go_Figure)
         \<lparr>layout_title := Some (''Plot '' @ decimal_int (index + 1) @ '': Area Chart (2,500 points)'')\<rparr>, g')"
    by (simp only: area_plot_def Let_def ys(1) prod.case str_int_fits [OF fits] sum.case)
  have fd: "fig_data (fold (area_trace_body (linspace 0 10 500)) (enumerate 0 ys) go_Figure) =
      map (\<lambda>(i, y). (Scatter (linspace 0 10 500) y ''lines'' (''Series '' @ decimal_int (int i + 1)) None
                        (Some (if i > 0 then ''tonexty'' else ''tozeroy'')), None)) (enumerate 0 ys)"
    by (simp only: area_trace_fold) (simp add: fig_data_go_Figure)
  have r: "generate_plot maxd smp ''area'' index g =
      Inr ((fold (area_trace_body (linspace 0 10 500)) (enumerate 0 ys) go_Figure)
         \<lparr>layout_title := Some (''Plot '' @ decimal_int (index + 1) @ '': Area Chart (2,500 points)'')\<rparr>, g')"
    by (simp only: generate_plot_single b)
  have "series_kinds (generate_plot maxd smp ''area'' index g) =
          map (\<lambda>iy. ''Scatter'') (enumerate 0 ys)"
    unfolding r series_kinds_def by (simp add: fd split_beta)
  then show "series_kinds (generate_plot maxd smp ''area'' index g) = replicate 5 ''Scatter''"
    by (simp add: map_replicate_const n)
  have "series_sizes (generate_plot maxd smp ''area'' index g) =
          map (\<lambda>iy. [500, length (snd iy)]) (enumerate 0 ys)"
    unfolding r series_sizes_def series_values_def
    by (simp add: fd split_beta length_linspace comp_def)
  also have "\<dots> = map (\<lambda>k. [500, k]) (map length (map snd (enumerate 0 ys)))"
    by (simp only: map_map comp_def)
  also have "\<dots> = map (\<lambda>k. [500, k]) (replicate 5 500)"
    by (simp only: map_snd_enumerate ys(2))
  finally show "series_sizes (generate_plot maxd smp ''area'' index g) = replicate 5 [500, 500]"
    by simp
qed

subsection \<open>The index of a plot\<close>

lemma scatter_plot_index:
  assumes "\<not> exceeds_limit maxd (digits_of (i + 1))"
    and "\<not> exceeds_limit maxd (digits_of (j + 1))"
    and "scatter_plot maxd smp i fig0 g = Inr (f, g')"
  shows "scatter_plot maxd smp j fig0 g =
           Inr (f\<lparr>layout_title := Some (''Plot '' @ decimal_int (j + 1) @
                 '': Scatter Plots (50 traces, 50,000 points total)'')\<rparr>, g') \<and>
         layout_title f = Some (''Plot '' @ decimal_int (i + 1) @
                 '': Scatter Plots (50 traces, 50,000 points total)'')"
  using assms by (auto simp: scatter_plot_def split_beta str_int_fits)

lemma scatter_plot_exceeds:
  "exceeds_limit maxd (digits_of (i + 1)) \<Longrightarrow> scatter_plot maxd smp i fig0 g = Inl Str_Digits_Limit"
  by (simp add: scatter_plot_def split_beta str_int_exceeds)

lemma scatter_plot_fits:
  "\<not> exceeds_limit maxd (digits_of (i + 1)) \<Longrightarrow> \<exists>f g'. scatter_plot maxd smp i fig0 g = Inr (f, g')"
  by (simp add: scatter_plot_def split_beta str_int_fits)

lemma line_plot_index:
  assumes "\<not> exceeds_limit maxd (digits_of (i + 1))"
    and "\<not> exceeds_limit maxd (digits_of (j + 1))"
    and "line_plot maxd smp i fig0 g = Inr (f, g')"
  shows "line_plot maxd smp j fig0 g =
           Inr (f\<lparr>layout_title := Some (''Plot '' @ decimal_int (j + 1) @
                 '': Line Charts (8,000 points total)'')\<rparr>, g') \<and>
         layout_title f = Some (''Plot '' @ decimal_int (i + 1) @ '': Line Charts (8,000 points total)'')"
  using assms by (auto simp: line_plot_def split_beta str_int_fits)

lemma line_plot_exceeds:
  "exceeds_limit maxd (digits_of (i + 1)) \<Longrightarrow> line_plot maxd smp i fig0 g = Inl Str_Digits_Limit"
  by (simp add: line_plot_def split_beta str_int_exceeds)

lemma line_plot_fits:
  "\<not> exceeds_limit maxd (digits_of (i + 1)) \<Longrightarrow> \<exists>f g'. line_plot maxd smp i fig0 g = Inr (f, g')"
  by (simp add: line_plot_def split_beta str_int_fits)

lemma bar_plot_index:
  assumes "\<not> exceeds_limit maxd (digits_of (i + 1))"
    and "\<not> exceeds_limit maxd (digits_of (j + 1))"
    and "bar_plot maxd smp i fig0 g = Inr (f, g')"
  shows "bar_plot maxd smp j fig0 g =
           Inr (f\<lparr>layout_title := Some (''Plot '' @ decimal_int (j + 1) @ '': Bar Charts (200 bars total)'')\<rparr>, g') \<and>
         layout_title f = Some (''Plot '' @ decimal_int (i + 1) @ '': Bar Charts (200 bars total)'')"
  using assms by (auto simp: bar_plot_def split_beta Let_def str_int_fits)

lemma bar_plot_exceeds:
  "exceeds_limit maxd (digits_of (i + 1)) \<Longrightarrow> bar_plot maxd smp i fig0 g = Inl Str_Digits_Limit"
  by (simp add: bar_plot_def split_beta Let_def str_int_exceeds)

lemma bar_plot_fits:
  "\<not> exceeds_limit maxd (digits_of (i + 1)) \<Longrightarrow> \<exists>f g'. bar_plot maxd smp i fig0 g = Inr (f, g')"
  by (simp add: bar_plot_def split_beta Let_def str_int_fits)

lemma histogram_plot_index:
  assumes "\<not> exceeds_limit maxd (digits_of (i + 1))"
    and "\<not> exceeds_limit maxd (digits_of (j + 1))"
    and "histogram_plot maxd smp i fig0 g = Inr (f, g')"
  shows "histogram_plot maxd smp j fig0 g =
           Inr (f\<lparr>layout_title := Some (''Plot '' @ decimal_int (j + 1) @ '': Histogram (6,000 samples)'')\<rparr>, g') \<and>
         layout_title f = Some (''Plot '' @ decimal_int (i + 1) @ '': Histogram (6,000 samples)'')"
  using assms by (auto simp: histogram_plot_def split_beta str_int_fits)

lemma histogram_plot_exceeds:
  "exceeds_limit maxd (digits_of (i + 1)) \<Longrightarrow> histogram_plot maxd smp i fig0 g = Inl Str_Digits_Limit"
  by (simp add: histogram_plot_def split_beta str_int_exceeds)

lemma histogram_plot_fits:
  "\<not> exceeds_limit maxd (digits_of (i + 1)) \<Longrightarrow> \<exists>f g'. histogram_plot maxd smp i fig0 g = Inr (f, g')"
  by (simp add: histogram_plot_def split_beta str_int_fits)

lemma box_plot_index:
  assumes "\<not> exceeds_limit maxd (digits_of (i + 1))"
    and "\<not> exceeds_limit maxd (digits_of (j + 1))"
    and "box_plot maxd smp i fig0 g = Inr (f, g')"
  shows "box_plot maxd smp j fig0 g =
           Inr (f\<lparr>layout_title := Some (''Plot '' @ decimal_int (j + 1) @ '': Box Plots (4,000 samples)'')\<rparr>, g') \<and>
         layout_title f = Some (''Plot '' @ decimal_int (i + 1) @ '': Box Plots (4,000 samples)'')"
  using assms by (auto simp: box_plot_def split_beta Let_def px_box_def str_int_fits)

lemma box_plot_exceeds:
  "exceeds_limit maxd (digits_of (i + 1)) \<Longrightarrow> box_plot maxd smp i fig0 g = Inl Str_Digits_Limit"
  by (simp add: box_plot_def split_beta Let_def px_box_def str_int_exceeds)

lemma box_plot_fits:
  "\<not> exceeds_limit maxd (digits_of (i + 1)) \<Longrightarrow> \<exists>f g'. box_plot maxd smp i fig0 g = Inr (f, g')"
  by (simp add: box_plot_def split_beta Let_def px_box_def str_int_fits)

lemma heatmap_plot_index:
  assumes "\<not> exceeds_limit maxd (digits_of (i + 1))"
    and "\<not> exceeds_limit maxd (digits_of (j + 1))"
    and "heatmap_plot maxd smp i fig0 g = Inr (f, g')"
  shows "heatmap_plot maxd smp j fig0 g =
           Inr (f\<lparr>layout_title := Some (''Plot '' @ decimal_int (j + 1) @ '': Heatmap (10,000 cells)'')\<rparr>, g') \<and>
         layout_title f = Some (''Plot '' @ decimal_int (i + 1) @ '': Heatmap (10,000 cells)'')"
  using assms by (auto simp: heatmap_plot_def split_beta Let_def str_int_fits)

lemma heatmap_plot_exceeds:
  "exceeds_limit maxd (digits_of (i + 1)) \<Longrightarrow> heatmap_plot maxd smp i fig0 g = Inl Str_Digits_Limit"
  by (simp add: heatmap_plot_def split_beta Let_def str_int_exceeds)

lemma heatmap_plot_fits:
  "\<not> exceeds_limit maxd (digits_of (i + 1)) \<Longrightarrow> \<exists>f g'. heatmap_plot maxd smp i fig0 g = Inr (f, g')"
  by (simp add: heatmap_plot_def split_beta Let_def str_int_fits)

lemma pie_plot_index:
  assumes "\<not> exceeds_limit maxd (digits_of (i + 1))"
    and "\<not> exceeds_limit maxd (digits_of (j + 1))"
    and "pie_plot maxd smp i fig0 g = Inr (f, g')"
  shows "pie_plot maxd smp j fig0 g =
           Inr (f\<lparr>layout_title := Some (''Plot '' @ decimal_int (j + 1) @ '': Pie Chart (25 slices)'')\<rparr>, g') \<and>
         layout_title f = Some (''Plot '' @ decimal_int (i + 1) @ '': Pie Chart (25 slices)'')"
  using assms by (auto simp: pie_plot_def split_beta Let_def str_int_fits)

lemma pie_plot_exceeds:
  "exceeds_limit maxd (digits_of (i + 1)) \<Longrightarrow> pie_plot maxd smp i fig0 g = Inl Str_Digits_Limit"
  by (simp add: pie_plot_def split_beta Let_def str_int_exceeds)

lemma pie_plot_fits:
  "\<not> exceeds_limit maxd (digits_of (i + 1)) \<Longrightarrow> \<exists>f g'. pie_plot maxd smp i fig0 g = Inr (f, g')"
  by (simp add: pie_plot_def split_beta Let_def str_int_fits)

lemma violin_plot_index:
  assumes "\<not> exceeds_limit maxd (digits_of (i + 1))"
    and "\<not> exceeds_limit maxd (digits_of (j + 1))"
    and "violin_plot maxd smp i fig0 g = Inr (f, g')"
  shows "violin_plot maxd smp j fig0 g =
           Inr (f\<lparr>layout_title := Some (''Plot '' @ decimal_int (j + 1) @ '': Violin Plots (5,000 samples)'')\<rparr>, g') \<and>
         layout_title f = Some (''Plot '' @ decimal_int (i + 1) @ '': Violin Plots (5,000 samples)'')"
  using assms by (auto simp: violin_plot_def split_beta Let_def px_violin_def str_int_fits simp del: fold_simps)

lemma violin_plot_exceeds:
  "exceeds_limit maxd (digits_of (i + 1)) \<Longrightarrow> violin_plot maxd smp i fig0 g = Inl Str_Digits_Limit"
  by (simp add: violin_plot_def split_beta Let_def px_violin_def str_int_exceeds)

lemma violin_plot_fits:
  "\<not> exceeds_limit maxd (digits_of (i + 1)) \<Longrightarrow> \<exists>f g'. violin_plot maxd smp i fig0 g = Inr (f, g')"
  by (simp add: violin_plot_def split_beta Let_def px_violin_def str_int_fits)

lemma area_plot_index:
  assumes "\<not> exceeds_limit maxd (digits_of (i + 1))"
    and "\<not> exceeds_limit maxd (digits_of (j + 1))"
    and "area_plot maxd smp i fig0 g = Inr (f, g')"
  shows "area_plot maxd smp j fig0 g =
           Inr (f\<lparr>layout_title := Some (''Plot '' @ decimal_int (j + 1) @ '': Area Chart (2,500 points)'')\<rparr>, g') \<and>
         layout_title f = Some (''Plot '' @ decimal_int (i + 1) @ '': Area Chart (2,500 points)'')"
  using assms by (auto simp: area_plot_def split_beta Let_def str_int_fits)

lemma area_plot_exceeds:
  "exceeds_limit maxd (digits_of (i + 1)) \<Longrightarrow> area_plot maxd smp i fig0 g = Inl Str_Digits_Limit"
  by (simp add: area_plot_def split_beta Let_def str_int_exceeds)

lemma area_plot_fits:
  "\<not> exceeds_limit maxd (digits_of (i + 1)) \<Longrightarrow> \<exists>f g'. area_plot maxd smp i fig0 g = Inr (f, g')"
  by (simp add: area_plot_def split_beta Let_def str_int_fits)

lemma funnel_plot_index:
  assumes "\<not> exceeds_limit maxd (digits_of (i + 1))"
    and "\<not> exceeds_limit maxd (digits_of (j + 1))"
    and "funnel_plot maxd smp i fig0 g = Inr (f, g')"
  shows "funnel_plot maxd smp j fig0 g =
           Inr (f\<lparr>layout_title := Some (''Plot '' @ decimal_int (j + 1) @ '': Funnel Chart (15 stages)'')\<rparr>, g') \<and>
         layout_title f = Some (''Plot '' @ decimal_int (i + 1) @ '': Funnel Chart (15 stages)'')"
  using assms by (auto simp: funnel_plot_def split_beta Let_def str_int_fits)

lemma funnel_plot_exceeds:
  "exceeds_limit maxd (digits_of (i + 1)) \<Longrightarrow> funnel_plot maxd smp i fig0 g = Inl Str_Digits_Limit"
  by (simp add: funnel_plot_def split_beta Let_def str_int_exceeds)

lemma funnel_plot_fits:
  "\<not> exceeds_limit maxd (digits_of (i + 1)) \<Longrightarrow> \<exists>f g'. funnel_plot maxd smp i fig0 g = Inr (f, g')"
  by (simp add: funnel_plot_def split_beta Let_def str_int_fits)

subsection \<open>The catalog and the error paths\<close>

lemma PLOT_TYPES_set:
  "set PLOT_TYPES = {''scatter'', ''line'', ''bar'', ''histogram'', ''box'', ''heatmap'', ''pie'',
     ''violin'', ''area'', ''funnel''}"
  by (simp add: PLOT_TYPES_def)

lemma generate_plot_unknown:
  "plot_type \<notin> set PLOT_TYPES \<Longrightarrow>
     generate_plot maxd smp plot_type index g =
       Inl (Unknown_Plot_Type (''Unknown plot type: '' @ plot_type))"
  by (simp add: generate_plot_def PLOT_TYPES_def)

lemma generate_plot_exceeds:
  assumes "plot_type \<in> set PLOT_TYPES" and e: "exceeds_limit maxd (digits_of (index + 1))"
  shows "generate_plot maxd smp plot_type index g = Inl Str_Digits_Limit"
  using assms(1) unfolding PLOT_TYPES_set
proof (elim insertE emptyE)
  assume p: "plot_type = ''scatter''"
  show ?thesis unfolding p by (simp only: generate_plot_scatter scatter_plot_exceeds [OF e])
next
  assume p: "plot_type = ''line''"
  show ?thesis unfolding p by (simp only: generate_plot_line line_plot_exceeds [OF e])
next
  assume p: "plot_type = ''bar''"
  show ?thesis unfolding p by (simp only: generate_plot_bar bar_plot_exceeds [OF e])
next
  assume p: "plot_type = ''histogram''"
  show ?thesis unfolding p by (simp only: generate_plot_single histogram_plot_exceeds [OF e])
next
  assume p: "plot_type = ''box''"
  show ?thesis unfolding p by (simp only: generate_plot_single box_plot_exceeds [OF e])
next
  assume p: "plot_type = ''heatmap''"
  show ?thesis unfolding p by (simp only: generate_plot_single heatmap_plot_exceeds [OF e])
next
  assume p: "plot_type = ''pie''"
  show ?thesis unfolding p by (simp only: generate_plot_single pie_plot_exceeds [OF e])
next
  assume p: "plot_type = ''violin''"
  show ?thesis unfolding p by (simp only: generate_plot_single violin_plot_exceeds [OF e])
next
  assume p: "plot_type = ''area''"
  show ?thesis unfolding p by (simp only: generate_plot_single area_plot_exceeds [OF e])
next
  assume p: "plot_type = ''funnel''"
  show ?thesis unfolding p by (simp only: generate_plot_single funnel_plot_exceeds [OF e])
qed

lemma generate_plot_index:
  assumes "plot_type \<in> set PLOT_TYPES"
    and f1: "\<not> exceeds_limit maxd (digits_of (i1 + 1))"
    and f2: "\<not> exceeds_limit maxd (digits_of (i2 + 1))"
  shows "\<exists>fig g' sfx.
           generate_plot maxd smp plot_type i1 g =
             Inr (fig\<lparr>layout_title := Some (''Plot '' @ decimal_int (i1 + 1) @ sfx)\<rparr>, g') \<and>
           generate_plot maxd smp plot_type i2 g =
             Inr (fig\<lparr>layout_title := Some (''Plot '' @ decimal_int (i2 + 1) @ sfx)\<rparr>, g')"
proof -
  have k: "\<exists>fig g' sfx. P i1 = Inr (fig\<lparr>layout_title := Some (''Plot '' @ decimal_int (i1 + 1) @ sfx)\<rparr>, g') \<and>
                         P i2 = Inr (fig\<lparr>layout_title := Some (''Plot '' @ decimal_int (i2 + 1) @ sfx)\<rparr>, g')"
    if "\<And>i. P i = Q i"
       "\<And>i. \<not> exceeds_limit maxd (digits_of (i + 1)) \<Longrightarrow> \<exists>f g'. Q i = Inr (f, g')"
       "\<And>i j f g'. \<not> exceeds_limit maxd (digits_of (i + 1)) \<Longrightarrow>
          \<not> exceeds_limit maxd (digits_of (j + 1)) \<Longrightarrow> Q i = Inr (f, g') \<Longrightarrow>
          Q j = Inr (f\<lparr>layout_title := Some (''Plot '' @ decimal_int (j + 1) @ s)\<rparr>, g') \<and>
          layout_title f = Some (''Plot '' @ decimal_int (i + 1) @ s)"
    for P :: "int \<Rightarrow> error + figure \<times> 'a" and Q s
  proof -
    from that(2) [OF f1] obtain f g' where q: "Q i1 = Inr (f, g')" by (elim exE)
    from that(3) [OF f1 f2 q]
    have 2: "Q i2 = Inr (f\<lparr>layout_title := Some (''Plot '' @ decimal_int (i2 + 1) @ s)\<rparr>, g')"
      and t: "layout_title f = Some (''Plot '' @ decimal_int (i1 + 1) @ s)" by simp_all
    from t have 1: "Q i1 = Inr (f\<lparr>layout_title := Some (''Plot '' @ decimal_int (i1 + 1) @ s)\<rparr>, g')"
      using q by simp
    have a: "P i1 = Inr (f\<lparr>layout_title := Some (''Plot '' @ decimal_int (i1 + 1) @ s)\<rparr>, g')"
      by (simp only: that(1) 1)
    have b: "P i2 = Inr (f\<lparr>layout_title := Some (''Plot '' @ decimal_int (i2 + 1) @ s)\<rparr>, g')"
      by (simp only: that(1) 2)
    have c: "P i1 = Inr (f\<lparr>layout_title := Some (''Plot '' @ decimal_int (i1 + 1) @ s)\<rparr>, g') \<and>
             P i2 = Inr (f\<lparr>layout_title := Some (''Plot '' @ decimal_int (i2 + 1) @ s)\<rparr>, g')"
      using a b by (rule conjI)
    show ?thesis
      by (rule exI [of _ f], rule exI [of _ g'], rule exI [of _ s]) (rule c)
  qed
  note c1 = k [OF generate_plot_scatter scatter_plot_fits scatter_plot_index]
  note c2 = k [OF generate_plot_line line_plot_fits line_plot_index]
  note c3 = k [OF generate_plot_bar bar_plot_fits bar_plot_index]
  note c4 = k [OF generate_plot_single(1) histogram_plot_fits histogram_plot_index]
  note c5 = k [OF generate_plot_single(2) box_plot_fits box_plot_index]
  note c6 = k [OF generate_plot_single(3) heatmap_plot_fits heatmap_plot_index]
  note c7 = k [OF generate_plot_single(4) pie_plot_fits pie_plot_index]
  note c8 = k [OF generate_plot_single(5) violin_plot_fits violin_plot_index]
  note c9 = k [OF generate_plot_single(6) area_plot_fits area_plot_index]
  note c10 = k [OF generate_plot_single(7) funnel_plot_fits funnel_plot_index]
  from assms(1) show ?thesis
    unfolding PLOT_TYPES_set
  proof (elim insertE emptyE)
    assume p: "plot_type = ''scatter''" show ?thesis unfolding p by (rule c1)
  next
    assume p: "plot_type = ''line''" show ?thesis unfolding p by (rule c2)
  next
    assume p: "plot_type = ''bar''" show ?thesis unfolding p by (rule c3)
  next
    assume p: "plot_type = ''histogram''" show ?thesis unfolding p by (rule c4)
  next
    assume p: "plot_type = ''box''" show ?thesis unfolding p by (rule c5)
  next
    assume p: "plot_type = ''heatmap''" show ?thesis unfolding p by (rule c6)
  next
    assume p: "plot_type = ''pie''" show ?thesis unfolding p by (rule c7)
  next
    assume p: "plot_type = ''violin''" show ?thesis unfolding p by (rule c8)
  next
    assume p: "plot_type = ''area''" show ?thesis unfolding p by (rule c9)
  next
    assume p: "plot_type = ''funnel''" show ?thesis unfolding p by (rule c10)
  qed
qed

lemma generate_plot_fits:
  assumes "plot_type \<in> set PLOT_TYPES" and f: "\<not> exceeds_limit maxd (digits_of (index + 1))"
  shows "\<exists>fig g'. generate_plot maxd smp plot_type index g = Inr (fig, g')"
proof -
  from generate_plot_index [OF assms(1) f f, of smp g] obtain fig g' sfx where
    r: "generate_plot maxd smp plot_type index g =
      Inr (fig\<lparr>layout_title := Some (''Plot '' @ decimal_int (index + 1) @ sfx)\<rparr>, g')"
    by (elim exE conjE)
  show ?thesis
    by (rule exI [of _ "fig\<lparr>layout_title := Some (''Plot '' @ decimal_int (index + 1) @ sfx)\<rparr>"],
        rule exI [of _ g']) (rule r)
qed

subsection \<open>Cells, sizes and the funnel\<close>

lemma series_scatter:
  assumes fits: "\<not> exceeds_limit maxd (digits_of (index + 1))"
  shows
  "series_kinds (generate_plot maxd smp ''scatter'' index g) = replicate 50 ''Scattergl''"
  "series_sizes (generate_plot maxd smp ''scatter'' index g) = replicate 50 [1000, 1000, 1000]"
  "series_cells (generate_plot maxd smp ''scatter'' index g) =
     map (\<lambda>s. Some ((s mod 4) div 2 + 1, (s mod 4) mod 2 + 1)) [0..<50]"
  by (simp_all add: generate_plot_scatter scatter_plot_eq str_int_fits [OF fits] series_kinds_def series_sizes_def
      series_values_def series_cells_def fig_data_make_subplots comp_def map_replicate_const
      length_range_py length_add_scalar length_draws)
    (simp add: range_py_def)

lemma cells_upt_4:
  "map (\<lambda>s. Some ((s mod 4) div 2 + 1, (s mod 4) mod 2 + 1)) [0..<4] =
     [Some (1, 1), Some (1, 2), Some (2, 1), Some (2, 2 :: nat)]"
  by (simp add: upt_rec)

text \<open>
  C3. In the three grid figures (of a call that returns, that is whose title can be
  formatted) series \<open>s\<close> is added to cell \<open>c = s mod 4\<close>, at row
  \<open>c div 2 + 1\<close> and column \<open>c mod 2 + 1\<close>: all 50 series of the scatter figure, and
  the 4 series of the line and of the bar figure. In the scatter figure series 5 is at
  row 1, column 2 and series 0 at row 1, column 1.
\<close>

theorem grid_cells:
  assumes fits: "\<not> exceeds_limit maxd (digits_of (index + 1))"
  shows
  "series_cells (generate_plot maxd smp ''scatter'' index g) =
     map (\<lambda>s. Some ((s mod 4) div 2 + 1, (s mod 4) mod 2 + 1)) [0..<50] \<and>
   series_cells (generate_plot maxd smp ''line'' index g) =
     map (\<lambda>s. Some ((s mod 4) div 2 + 1, (s mod 4) mod 2 + 1)) [0..<4] \<and>
   series_cells (generate_plot maxd smp ''bar'' index g) =
     map (\<lambda>s. Some ((s mod 4) div 2 + 1, (s mod 4) mod 2 + 1)) [0..<4] \<and>
   series_cells (generate_plot maxd smp ''scatter'' index g) ! 5 = Some (1, 2) \<and>
   series_cells (generate_plot maxd smp ''scatter'' index g) ! 0 = Some (1, 1)"
proof -
  have 5: "series_cells (generate_plot maxd smp ''scatter'' index g) ! 5 = Some (1, 2)"
    by (simp add: series_scatter(3) [OF fits] del: upt_Suc)
  have 0: "series_cells (generate_plot maxd smp ''scatter'' index g) ! 0 = Some (1, 1)"
    by (simp add: series_scatter(3) [OF fits] del: upt_Suc)
  have l: "series_cells (generate_plot maxd smp ''line'' index g) =
     map (\<lambda>s. Some ((s mod 4) div 2 + 1, (s mod 4) mod 2 + 1)) [0..<4]"
    by (simp only: series_line(3) [OF fits] cells_upt_4)
  have b: "series_cells (generate_plot maxd smp ''bar'' index g) =
     map (\<lambda>s. Some ((s mod 4) div 2 + 1, (s mod 4) mod 2 + 1)) [0..<4]"
    by (simp only: series_bar(4) [OF fits] cells_upt_4)
  show ?thesis
    by (intro conjI series_scatter(3) [OF fits] l b 5 0)
qed

theorem grid_cells_witness:
  "\<not> exceeds_limit 4300 (digits_of (0 + 1)) \<and>
  (series_cells (generate_plot 4300 counter_smp ''scatter'' 0 0) =
     map (\<lambda>s. Some ((s mod 4) div 2 + 1, (s mod 4) mod 2 + 1)) [0..<50] \<and>
   series_cells (generate_plot 4300 counter_smp ''line'' 0 0) =
     map (\<lambda>s. Some ((s mod 4) div 2 + 1, (s mod 4) mod 2 + 1)) [0..<4] \<and>
   series_cells (generate_plot 4300 counter_smp ''bar'' 0 0) =
     map (\<lambda>s. Some ((s mod 4) div 2 + 1, (s mod 4) mod 2 + 1)) [0..<4] \<and>
   series_cells (generate_plot 4300 counter_smp ''scatter'' 0 0) ! 5 = Some (1, 2) \<and>
   series_cells (generate_plot 4300 counter_smp ''scatter'' 0 0) ! 0 = Some (1, 1))"
proof -
  have f: "\<not> exceeds_limit 4300 (digits_of (0 + 1))" by (rule fits_small) simp_all
  show ?thesis
    by (rule conjI [OF f grid_cells [where maxd = 4300 and index = 0 and smp = counter_smp and g = 0, OF f]])
qed

text \<open>
  C7. For every tag of the catalog the figure of a call that returns (whose title can be
  formatted) has the number of traces and the data
  sizes of the table: scatter 50 traces of 1000 points (x, y and colour); line 4 traces of
  2000 points; bar 4 traces of 50 bars over 50 categories; histogram 3 traces of 2000
  samples with 50 bins; box one frame of 4000 samples, 200 for each of 20 categories;
  heatmap one matrix of 100 rows of 100; pie 25 values with 25 labels; violin one frame of
  5000 samples, 1000 for each of the categories A to E; area 5 traces of 500 points;
  funnel 15 values for 15 stages.
\<close>

theorem dataset_sizes:
  assumes fits: "\<not> exceeds_limit maxd (digits_of (index + 1))"
  shows
  "series_kinds (generate_plot maxd smp ''scatter'' index g) = replicate 50 ''Scattergl'' \<and>
   series_sizes (generate_plot maxd smp ''scatter'' index g) = replicate 50 [1000, 1000, 1000] \<and>
   series_kinds (generate_plot maxd smp ''line'' index g) = replicate 4 ''Scatter'' \<and>
   series_sizes (generate_plot maxd smp ''line'' index g) = replicate 4 [2000, 2000] \<and>
   series_kinds (generate_plot maxd smp ''bar'' index g) = replicate 4 ''Bar'' \<and>
   series_sizes (generate_plot maxd smp ''bar'' index g) = replicate 4 [50] \<and>
   map length (series_labels (generate_plot maxd smp ''bar'' index g)) = replicate 4 50 \<and>
   series_kinds (generate_plot maxd smp ''histogram'' index g) = replicate 3 ''Histogram'' \<and>
   series_sizes (generate_plot maxd smp ''histogram'' index g) = replicate 3 [2000] \<and>
   series_nbinsx (generate_plot maxd smp ''histogram'' index g) = replicate 3 (Some 50) \<and>
   series_kinds (generate_plot maxd smp ''box'' index g) = [''px.box''] \<and>
   series_sizes (generate_plot maxd smp ''box'' index g) = [[4000]] \<and>
   series_labels (generate_plot maxd smp ''box'' index g) =
     [concat (map (replicate 200)
        [''Group_0'', ''Group_1'', ''Group_2'', ''Group_3'', ''Group_4'', ''Group_5'', ''Group_6'',
         ''Group_7'', ''Group_8'', ''Group_9'', ''Group_10'', ''Group_11'', ''Group_12'', ''Group_13'',
         ''Group_14'', ''Group_15'', ''Group_16'', ''Group_17'', ''Group_18'', ''Group_19''])] \<and>
   series_kinds (generate_plot maxd smp ''heatmap'' index g) = [''Heatmap''] \<and>
   series_sizes (generate_plot maxd smp ''heatmap'' index g) = [replicate 100 100] \<and>
   series_kinds (generate_plot maxd smp ''pie'' index g) = [''Pie''] \<and>
   series_sizes (generate_plot maxd smp ''pie'' index g) = [[25]] \<and>
   map length (series_labels (generate_plot maxd smp ''pie'' index g)) = [25] \<and>
   series_kinds (generate_plot maxd smp ''violin'' index g) = [''px.violin''] \<and>
   series_sizes (generate_plot maxd smp ''violin'' index g) = [[5000]] \<and>
   series_labels (generate_plot maxd smp ''violin'' index g) =
     [concat (map (replicate 1000) [''A'', ''B'', ''C'', ''D'', ''E''])] \<and>
   series_kinds (generate_plot maxd smp ''area'' index g) = replicate 5 ''Scatter'' \<and>
   series_sizes (generate_plot maxd smp ''area'' index g) = replicate 5 [500, 500] \<and>
   series_kinds (generate_plot maxd smp ''funnel'' index g) = [''Funnel''] \<and>
   series_sizes (generate_plot maxd smp ''funnel'' index g) = [[15]] \<and>
   map length (series_labels (generate_plot maxd smp ''funnel'' index g)) = [15]"
proof -
  have f: "map length (series_labels (generate_plot maxd smp ''funnel'' index g)) = [15]"
    by (simp add: series_funnel(3) [OF fits] length_range_py)
  show ?thesis
    by (simp only: series_scatter(1,2) [OF fits] series_line(1,2) [OF fits]
        series_bar(1,2,3) [OF fits] series_histogram [OF fits] series_box [OF fits] box_categories
        series_heatmap [OF fits] series_pie [OF fits] series_violin [OF fits]
        series_area [OF fits] series_funnel(1,2) [OF fits] f simp_thms)
qed

theorem dataset_sizes_witness:
  "\<not> exceeds_limit 4300 (digits_of (0 + 1)) \<and>
  (series_kinds (generate_plot 4300 counter_smp ''scatter'' 0 0) = replicate 50 ''Scattergl'' \<and>
   series_sizes (generate_plot 4300 counter_smp ''scatter'' 0 0) = replicate 50 [1000, 1000, 1000] \<and>
   series_kinds (generate_plot 4300 counter_smp ''line'' 0 0) = replicate 4 ''Scatter'' \<and>
   series_sizes (generate_plot 4300 counter_smp ''line'' 0 0) = replicate 4 [2000, 2000] \<and>
   series_kinds (generate_plot 4300 counter_smp ''bar'' 0 0) = replicate 4 ''Bar'' \<and>
   series_sizes (generate_plot 4300 counter_smp ''bar'' 0 0) = replicate 4 [50] \<and>
   map length (series_labels (generate_plot 4300 counter_smp ''bar'' 0 0)) = replicate 4 50 \<and>
   series_kinds (generate_plot 4300 counter_smp ''histogram'' 0 0) = replicate 3 ''Histogram'' \<and>
   series_sizes (generate_plot 4300 counter_smp ''histogram'' 0 0) = replicate 3 [2000] \<and>
   series_nbinsx (generate_plot 4300 counter_smp ''histogram'' 0 0) = replicate 3 (Some 50) \<and>
   series_kinds (generate_plot 4300 counter_smp ''box'' 0 0) = [''px.box''] \<and>
   series_sizes (generate_plot 4300 counter_smp ''box'' 0 0) = [[4000]] \<and>
   series_labels (generate_plot 4300 counter_smp ''box'' 0 0) =
     [concat (map (replicate 200)
        [''Group_0'', ''Group_1'', ''Group_2'', ''Group_3'', ''Group_4'', ''Group_5'', ''Group_6'',
         ''Group_7'', ''Group_8'', ''Group_9'', ''Group_10'', ''Group_11'', ''Group_12'', ''Group_13'',
         ''Group_14'', ''Group_15'', ''Group_16'', ''Group_17'', ''Group_18'', ''Group_19''])] \<and>
   series_kinds (generate_plot 4300 counter_smp ''heatmap'' 0 0) = [''Heatmap''] \<and>
   series_sizes (generate_plot 4300 counter_smp ''heatmap'' 0 0) = [replicate 100 100] \<and>
   series_kinds (generate_plot 4300 counter_smp ''pie'' 0 0) = [''Pie''] \<and>
   series_sizes (generate_plot 4300 counter_smp ''pie'' 0 0) = [[25]] \<and>
   map length (series_labels (generate_plot 4300 counter_smp ''pie'' 0 0)) = [25] \<and>
   series_kinds (generate_plot 4300 counter_smp ''violin'' 0 0) = [''px.violin''] \<and>
   series_sizes (generate_plot 4300 counter_smp ''violin'' 0 0) = [[5000]] \<and>
   series_labels (generate_plot 4300 counter_smp ''violin'' 0 0) =
     [concat (map (replicate 1000) [''A'', ''B'', ''C'', ''D'', ''E''])] \<and>
   series_kinds (generate_plot 4300 counter_smp ''area'' 0 0) = replicate 5 ''Scatter'' \<and>
   series_sizes (generate_plot 4300 counter_smp ''area'' 0 0) = replicate 5 [500, 500] \<and>
   series_kinds (generate_plot 4300 counter_smp ''funnel'' 0 0) = [''Funnel''] \<and>
   series_sizes (generate_plot 4300 counter_smp ''funnel'' 0 0) = [[15]] \<and>
   map length (series_labels (generate_plot 4300 counter_smp ''funnel'' 0 0)) = [15])"
proof -
  have f: "\<not> exceeds_limit 4300 (digits_of (0 + 1))" by (rule fits_small) simp_all
  show ?thesis
    by (rule conjI [OF f dataset_sizes [where maxd = 4300 and index = 0 and smp = counter_smp and g = 0, OF f]])
qed

text \<open>
  C9. The funnel figure of a call that returns (whose title can be formatted) has one
  funnel trace with the 15 stages \<^verbatim>\<open>Stage_00\<close> to
  \<^verbatim>\<open>Stage_14\<close>; its 15 values are the 15 exponential draws (the same multiset) in
  non-increasing order, and its text shows the value and the percentage of the initial
  one.
\<close>

theorem funnel_stages_sorted:
  assumes fits: "\<not> exceeds_limit maxd (digits_of (index + 1))"
  shows
  "series_kinds (generate_plot maxd smp ''funnel'' index g) = [''Funnel''] \<and>
   series_labels (generate_plot maxd smp ''funnel'' index g) =
     [[''Stage_00'', ''Stage_01'', ''Stage_02'', ''Stage_03'', ''Stage_04'', ''Stage_05'', ''Stage_06'',
       ''Stage_07'', ''Stage_08'', ''Stage_09'', ''Stage_10'', ''Stage_11'', ''Stage_12'', ''Stage_13'',
       ''Stage_14'']] \<and>
   series_textinfo (generate_plot maxd smp ''funnel'' index g) = [Some ''value+percent initial''] \<and>
   (\<exists>vals. series_values (generate_plot maxd smp ''funnel'' index g) = [[vals]] \<and>
      length vals = 15 \<and>
      sorted_wrt (\<lambda>a b. b \<le> a) vals \<and>
      mset vals = mset (fst (draws smp (Exponential 100) 15 g)))"
proof -
  let ?v = "rev (sort (fst (draws smp (Exponential 100) 15 g)))"
  have "length ?v = 15" by (simp add: length_draws)
  moreover have "sorted_wrt (\<lambda>a b. b \<le> a) ?v" by (simp add: sorted_wrt_rev)
  moreover have "mset ?v = mset (fst (draws smp (Exponential 100) 15 g))" by simp
  ultimately have "\<exists>vals. series_values (generate_plot maxd smp ''funnel'' index g) = [[vals]] \<and>
      length vals = 15 \<and> sorted_wrt (\<lambda>a b. b \<le> a) vals \<and>
      mset vals = mset (fst (draws smp (Exponential 100) 15 g))"
    unfolding series_funnel(4) [OF fits] by (intro exI [of _ ?v] conjI refl)
  then show ?thesis
    by (simp only: series_funnel(1,3,5) [OF fits] funnel_stages simp_thms)
qed

theorem funnel_stages_sorted_witness:
  "\<not> exceeds_limit 4300 (digits_of (0 + 1)) \<and>
  (series_kinds (generate_plot 4300 counter_smp ''funnel'' 0 0) = [''Funnel''] \<and>
   series_labels (generate_plot 4300 counter_smp ''funnel'' 0 0) =
     [[''Stage_00'', ''Stage_01'', ''Stage_02'', ''Stage_03'', ''Stage_04'', ''Stage_05'', ''Stage_06'',
       ''Stage_07'', ''Stage_08'', ''Stage_09'', ''Stage_10'', ''Stage_11'', ''Stage_12'', ''Stage_13'',
       ''Stage_14'']] \<and>
   series_textinfo (generate_plot 4300 counter_smp ''funnel'' 0 0) = [Some ''value+percent initial''] \<and>
   (\<exists>vals. series_values (generate_plot 4300 counter_smp ''funnel'' 0 0) = [[vals]] \<and>
      length vals = 15 \<and>
      sorted_wrt (\<lambda>a b. b \<le> a) vals \<and>
      mset vals = mset (fst (draws counter_smp (Exponential 100) 15 0))))"
proof -
  have f: "\<not> exceeds_limit 4300 (digits_of (0 + 1))" by (rule fits_small) simp_all
  show ?thesis
    by (rule conjI [OF f funnel_stages_sorted [where maxd = 4300 and index = 0 and smp = counter_smp and g = 0, OF f]])
qed

text \<open>
  C1, as the code has it. The catalog has ten distinct tags. \<^verbatim>\<open>generate_plot\<close> raises the
  unknown-plot-type error, with the tag in its message, exactly when the tag is not one of
  them. For a tag of the catalog it returns a figure exactly when the index plus one has
  no more digits than the interpreter lets it format for the title, and raises the
  error of that limit otherwise. Every non-negative index with index plus one below
  \<open>10 ^ 640\<close> is within the limit, whatever the limit is set to.
\<close>

theorem generate_plot_outcomes:
  "length PLOT_TYPES = 10 \<and> distinct PLOT_TYPES \<and>
   (generate_plot maxd smp plot_type index g =
        Inl (Unknown_Plot_Type (''Unknown plot type: '' @ plot_type))
      \<longleftrightarrow> plot_type \<notin> set PLOT_TYPES) \<and>
   ((\<exists>msg. generate_plot maxd smp plot_type index g = Inl (Unknown_Plot_Type msg))
      \<longleftrightarrow> plot_type \<notin> set PLOT_TYPES) \<and>
   (generate_plot maxd smp plot_type index g = Inl Str_Digits_Limit
      \<longleftrightarrow> plot_type \<in> set PLOT_TYPES \<and> exceeds_limit maxd (digits_of (index + 1))) \<and>
   ((\<exists>fig g'. generate_plot maxd smp plot_type index g = Inr (fig, g'))
      \<longleftrightarrow> plot_type \<in> set PLOT_TYPES \<and> \<not> exceeds_limit maxd (digits_of (index + 1))) \<and>
   (0 \<le> index \<and> index + 1 < 10 ^ 640 \<longrightarrow> \<not> exceeds_limit maxd (digits_of (index + 1)))"
proof -
  have a: "length PLOT_TYPES = 10" "distinct PLOT_TYPES" by (simp_all add: PLOT_TYPES_def)
  have z: "0 \<le> index \<and> index + 1 < 10 ^ 640 \<longrightarrow> \<not> exceeds_limit maxd (digits_of (index + 1))"
  proof
    assume h: "0 \<le> index \<and> index + 1 < 10 ^ 640"
    then have "0 \<le> index + 1" by simp
    moreover from h have "index + 1 < 10 ^ 640" by (rule conjunct2)
    ultimately show "\<not> exceeds_limit maxd (digits_of (index + 1))" by (rule not_exceeds_below)
  qed
  have b: "(generate_plot maxd smp plot_type index g =
        Inl (Unknown_Plot_Type (''Unknown plot type: '' @ plot_type))
      \<longleftrightarrow> plot_type \<notin> set PLOT_TYPES) \<and>
   ((\<exists>msg. generate_plot maxd smp plot_type index g = Inl (Unknown_Plot_Type msg))
      \<longleftrightarrow> plot_type \<notin> set PLOT_TYPES) \<and>
   (generate_plot maxd smp plot_type index g = Inl Str_Digits_Limit
      \<longleftrightarrow> plot_type \<in> set PLOT_TYPES \<and> exceeds_limit maxd (digits_of (index + 1))) \<and>
   ((\<exists>fig g'. generate_plot maxd smp plot_type index g = Inr (fig, g'))
      \<longleftrightarrow> plot_type \<in> set PLOT_TYPES \<and> \<not> exceeds_limit maxd (digits_of (index + 1)))"
  proof (cases "plot_type \<in> set PLOT_TYPES")
    case False
    note r = generate_plot_unknown [OF False, of maxd smp index g]
    show ?thesis unfolding r using False by simp
  next
    case True
    show ?thesis
    proof (cases "exceeds_limit maxd (digits_of (index + 1))")
      case e: True
      note r = generate_plot_exceeds [OF True e, of smp g]
      show ?thesis unfolding r using True e by simp
    next
      case f: False
      from generate_plot_fits [OF True f, of smp g] obtain fig g' where
        r: "generate_plot maxd smp plot_type index g = Inr (fig, g')" by (elim exE)
      show ?thesis unfolding r using True f by simp
    qed
  qed
  show ?thesis by (rule conjI [OF a(1) conjI [OF a(2) conjI [OF b [THEN conjunct1]
    conjI [OF b [THEN conjunct2, THEN conjunct1] conjI [OF b [THEN conjunct2, THEN conjunct2, THEN conjunct1]
    conjI [OF b [THEN conjunct2, THEN conjunct2, THEN conjunct2] z]]]]]])
qed

theorem generate_plot_outcomes_witness:
  "generate_plot 4300 counter_smp ''not-a-real-type'' 0 0 =
     Inl (Unknown_Plot_Type (''Unknown plot type: '' @ ''not-a-real-type'')) \<and>
   (\<exists>fig g'. generate_plot 4300 counter_smp ''funnel'' 7 0 = Inr (fig, g')) \<and>
   \<not> exceeds_limit 4300 (digits_of (7 + 1))"
proof -
  have u: "''not-a-real-type'' \<notin> set PLOT_TYPES" and k: "''funnel'' \<in> set PLOT_TYPES"
    by (simp_all add: PLOT_TYPES_def)
  have "(7::int) + 1 \<le> 10 ^ 1" by simp
  also have "(10::int) ^ 1 < 10 ^ 640" by (rule power_strict_increasing) simp_all
  finally have "(7::int) + 1 < 10 ^ 640" .
  moreover have "(0::int) \<le> 7" by simp
  ultimately have h: "(0::int) \<le> 7 \<and> (7::int) + 1 < 10 ^ 640" by (rule conjI [rotated])
  note t = generate_plot_outcomes [where maxd = 4300 and smp = counter_smp and g = 0]
  have f: "\<not> exceeds_limit 4300 (digits_of (7 + 1))"
    using t [where plot_type = "''funnel''" and index = 7, THEN conjunct2, THEN conjunct2,
        THEN conjunct2, THEN conjunct2, THEN conjunct2, THEN conjunct2] h
    by (rule mp)
  have 1: "generate_plot 4300 counter_smp ''not-a-real-type'' 0 0 =
     Inl (Unknown_Plot_Type (''Unknown plot type: '' @ ''not-a-real-type''))"
    using t [where plot_type = "''not-a-real-type''" and index = 0, THEN conjunct2, THEN conjunct2,
        THEN conjunct1] u
    by (rule iffD2)
  have 2: "\<exists>fig g'. generate_plot 4300 counter_smp ''funnel'' 7 0 = Inr (fig, g')"
    using t [where plot_type = "''funnel''" and index = 7, THEN conjunct2, THEN conjunct2,
        THEN conjunct2, THEN conjunct2, THEN conjunct2, THEN conjunct1] conjI [OF k f]
    by (rule iffD2)
  show ?thesis by (rule conjI [OF 1 conjI [OF 2 f]])
qed

text \<open>
  C1, as the claim states it, fails: under the interpreter's usual limit of 4300 digits
  the call for the catalog tag \<^verbatim>\<open>scatter\<close> with the non-negative index \<open>10 ^ 4300\<close> does
  not return a figure; formatting the title raises.
\<close>

theorem generate_plot_huge_index_counterexample:
  "generate_plot 4300 counter_smp ''scatter'' (10 ^ 4300) 0 = Inl Str_Digits_Limit"
proof -
  have k: "''scatter'' \<in> set PLOT_TYPES" by (simp add: PLOT_TYPES_def)
  have e: "exceeds_limit 4300 (digits_of (10 ^ 4300 + 1))" by (rule exceeds_power) simp_all
  show ?thesis
    by (rule generate_plot_exceeds [where plot_type = "''scatter''" and maxd = 4300
          and index = "10 ^ 4300" and smp = counter_smp and g = 0, OF k e])
qed

lemma generate_plot_index_cases:
  assumes f1: "\<not> exceeds_limit maxd (digits_of (i1 + 1))"
    and f2: "\<not> exceeds_limit maxd (digits_of (i2 + 1))"
  shows
  "(\<exists>e. generate_plot maxd smp plot_type i1 g = Inl e \<and> generate_plot maxd smp plot_type i2 g = Inl e) \<or>
   (\<exists>fig g' sfx.
      generate_plot maxd smp plot_type i1 g =
        Inr (fig\<lparr>layout_title := Some (''Plot '' @ decimal_int (i1 + 1) @ sfx)\<rparr>, g') \<and>
      generate_plot maxd smp plot_type i2 g =
        Inr (fig\<lparr>layout_title := Some (''Plot '' @ decimal_int (i2 + 1) @ sfx)\<rparr>, g'))"
proof (cases "plot_type \<in> set PLOT_TYPES")
  case True
  from generate_plot_index [OF True f1 f2, of smp g] show ?thesis by (rule disjI2)
next
  case False
  have "generate_plot maxd smp plot_type i1 g = Inl (Unknown_Plot_Type (''Unknown plot type: '' @ plot_type)) \<and>
        generate_plot maxd smp plot_type i2 g = Inl (Unknown_Plot_Type (''Unknown plot type: '' @ plot_type))"
    by (simp only: generate_plot_unknown [OF False] simp_thms)
  then have "\<exists>e. generate_plot maxd smp plot_type i1 g = Inl e \<and> generate_plot maxd smp plot_type i2 g = Inl e"
    by (rule exI [of _ "Unknown_Plot_Type (''Unknown plot type: '' @ plot_type)"])
  then show ?thesis by (rule disjI1)
qed

text \<open>
  C8, as the code has it. Two calls with the same tag and the same state of the
  generator, with indices \<open>i1\<close> and \<open>i2\<close> whose titles can both be formatted: either
  both raise the same error (the tag is unknown), or both return the same state of the
  generator and the same figure except for the title, which is \<^verbatim>\<open>Plot\<close>, the index plus
  one, and a text that does not depend on the index. In particular the kinds, the data,
  the labels and the grid cells of the traces are the same.
\<close>

theorem index_only_in_title:
  assumes f1: "\<not> exceeds_limit maxd (digits_of (i1 + 1))"
    and f2: "\<not> exceeds_limit maxd (digits_of (i2 + 1))"
  shows
  "((\<exists>e. generate_plot maxd smp plot_type i1 g = Inl e \<and> generate_plot maxd smp plot_type i2 g = Inl e) \<or>
    (\<exists>fig g' sfx.
       generate_plot maxd smp plot_type i1 g =
         Inr (fig\<lparr>layout_title := Some (''Plot '' @ decimal_int (i1 + 1) @ sfx)\<rparr>, g') \<and>
       generate_plot maxd smp plot_type i2 g =
         Inr (fig\<lparr>layout_title := Some (''Plot '' @ decimal_int (i2 + 1) @ sfx)\<rparr>, g'))) \<and>
   series_kinds (generate_plot maxd smp plot_type i1 g) = series_kinds (generate_plot maxd smp plot_type i2 g) \<and>
   series_values (generate_plot maxd smp plot_type i1 g) = series_values (generate_plot maxd smp plot_type i2 g) \<and>
   series_labels (generate_plot maxd smp plot_type i1 g) = series_labels (generate_plot maxd smp plot_type i2 g) \<and>
   series_cells (generate_plot maxd smp plot_type i1 g) = series_cells (generate_plot maxd smp plot_type i2 g)"
proof -
  note d = generate_plot_index_cases [OF f1 f2, of smp plot_type g]
  have k: "series_kinds (generate_plot maxd smp plot_type i1 g) = series_kinds (generate_plot maxd smp plot_type i2 g)"
    using d by (elim disjE exE conjE) (simp_all add: series_kinds_def)
  have v: "series_values (generate_plot maxd smp plot_type i1 g) = series_values (generate_plot maxd smp plot_type i2 g)"
    using d by (elim disjE exE conjE) (simp_all add: series_values_def)
  have l: "series_labels (generate_plot maxd smp plot_type i1 g) = series_labels (generate_plot maxd smp plot_type i2 g)"
    using d by (elim disjE exE conjE) (simp_all add: series_labels_def)
  have c: "series_cells (generate_plot maxd smp plot_type i1 g) = series_cells (generate_plot maxd smp plot_type i2 g)"
    using d by (elim disjE exE conjE) (simp_all add: series_cells_def)
  show ?thesis by (intro conjI d k v l c)
qed

theorem index_only_in_title_witness:
  "\<not> exceeds_limit 4300 (digits_of (0 + 1)) \<and> \<not> exceeds_limit 4300 (digits_of (4 + 1)) \<and>
   series_values (generate_plot 4300 counter_smp ''pie'' 0 0) =
     series_values (generate_plot 4300 counter_smp ''pie'' 4 0)"
proof -
  have f1: "\<not> exceeds_limit 4300 (digits_of (0 + 1))" by (rule fits_small) simp_all
  have f2: "\<not> exceeds_limit 4300 (digits_of (4 + 1))" by (rule fits_small) simp_all
  note t = index_only_in_title [where maxd = 4300 and ?i1.0 = 0 and ?i2.0 = 4 and smp = counter_smp
      and plot_type = "''pie''" and g = 0, OF f1 f2]
  show ?thesis
    by (rule conjI [OF f1 conjI [OF f2 t [THEN conjunct2, THEN conjunct2, THEN conjunct1]]])
qed

text \<open>
  C8, as the claim states it, fails: under the interpreter's usual limit of 4300 digits
  and from the same state of the generator, the call for \<^verbatim>\<open>pie\<close> with index 0 returns a
  figure and the call with index \<open>10 ^ 4300\<close> raises, so the index decides more than the
  title text.
\<close>

theorem index_decides_raise_counterexample:
  "\<not> isl (generate_plot 4300 counter_smp ''pie'' 0 0) \<and>
   generate_plot 4300 counter_smp ''pie'' (10 ^ 4300) 0 = Inl Str_Digits_Limit"
proof -
  have k: "''pie'' \<in> set PLOT_TYPES" by (simp add: PLOT_TYPES_def)
  have e: "exceeds_limit 4300 (digits_of (10 ^ 4300 + 1))" by (rule exceeds_power) simp_all
  have f: "\<not> exceeds_limit 4300 (digits_of (0 + 1))" by (rule fits_small) simp_all
  from generate_plot_fits [where plot_type = "''pie''" and maxd = 4300 and index = 0
      and smp = counter_smp and g = 0, OF k f]
  obtain fig g' where "generate_plot 4300 counter_smp ''pie'' 0 0 = Inr (fig, g')" by (elim exE)
  then have 1: "\<not> isl (generate_plot 4300 counter_smp ''pie'' 0 0)" by simp
  have 2: "generate_plot 4300 counter_smp ''pie'' (10 ^ 4300) 0 = Inl Str_Digits_Limit"
    by (rule generate_plot_exceeds [where plot_type = "''pie''" and maxd = 4300
          and index = "10 ^ 4300" and smp = counter_smp and g = 0, OF k e])
  show ?thesis by (rule conjI [OF 1 2])
qed

subsection \<open>The loop of the driver\<close>

lemma length_str_nat_mono: "m \<le> n \<Longrightarrow> length (str_nat m) \<le> length (str_nat n)"
proof (induction n arbitrary: m rule: str_nat.induct)
  case (1 n)
  show ?case
  proof (cases "n < 10")
    case True
    with 1(2) have "m < 10" by simp
    with True show ?thesis by (simp add: str_nat.simps [of m] str_nat.simps [of n])
  next
    case False
    show ?thesis
    proof (cases "m < 10")
      case True
      with False show ?thesis by (simp add: str_nat.simps [of m] str_nat.simps [of n])
    next
      case m: False
      have "m div 10 \<le> n div 10" using 1(2) by (rule div_le_mono)
      from 1(1) [OF False this] False m show ?thesis
        by (simp add: str_nat.simps [of m] str_nat.simps [of n])
    qed
  qed
qed

lemma fits_mono:
  assumes "\<not> exceeds_limit maxd (digits_of (int n))" and "m \<le> n"
  shows "\<not> exceeds_limit maxd (digits_of (int m))"
proof -
  have "digits_of (int m) \<le> digits_of (int n)"
    using length_str_nat_mono [OF assms(2)] by (simp add: digits_of_def)
  with assms(1) show ?thesis by (auto simp: exceeds_limit_def)
qed

lemma generate_plot_Inr_fits:
  assumes "generate_plot maxd smp plot_type index g = Inr r"
  shows "\<not> exceeds_limit maxd (digits_of (index + 1))"
proof
  assume e: "exceeds_limit maxd (digits_of (index + 1))"
  show False
  proof (cases "plot_type \<in> set PLOT_TYPES")
    case True
    from generate_plot_exceeds [OF True e, of smp g] assms show False by simp
  next
    case False
    from generate_plot_unknown [OF False, of maxd smp index g] assms show False by simp
  qed
qed

lemma for_each_append:
  "for_each body (xs @ ys) s =
     (case for_each body xs s of Inl e \<Rightarrow> Inl e | Inr s1 \<Rightarrow> for_each body ys s1)"
  by (induction xs arbitrary: s) (simp_all split: sum.splits)

lemma length_PLOT_TYPES: "length PLOT_TYPES = 10"
  by (simp add: PLOT_TYPES_def)

lemma plot_type_at_eq: "plot_type_at i = PLOT_TYPES ! (i mod 10)"
  by (simp add: plot_type_at_def length_PLOT_TYPES)

lemma plot_type_at_known: "plot_type_at i \<in> set PLOT_TYPES"
  unfolding plot_type_at_def by (rule nth_mem) (simp add: length_PLOT_TYPES)


lemma loop_body_eq:
  "loop_body maxd smp show_progress i w =
     (case generate_plot maxd smp (PLOT_TYPES ! (i mod 10)) (int i) (rng w) of
        Inl e \<Rightarrow> Inl e
      | Inr (fig, g') \<Rightarrow>
          Inr (w\<lparr>rng := g',
                 events := events w @ Show_fig fig #
                   (if show_progress \<and> Suc i mod 10 = 0 then [Print (progress_line (decimal_int (int i + 1)))] else [])\<rparr>))"
proof (cases "generate_plot maxd smp (PLOT_TYPES ! (i mod 10)) (int i) (rng w)")
  case (Inl e)
  then show ?thesis by (simp add: loop_body_def plot_type_at_eq)
next
  case (Inr r)
  obtain fig g' where r: "r = (fig, g')" by (cases r)
  from generate_plot_Inr_fits [OF Inr] have f: "\<not> exceeds_limit maxd (digits_of (int i + 1))" .
  show ?thesis by (simp add: loop_body_def plot_type_at_eq Let_def Inr r str_int_fits [OF f])
qed

lemma generate_plots_Some:
  "generate_plots maxd smp env (Some (int n)) show_progress w =
     for_each (loop_body maxd smp show_progress) (range_py n) w"
  by (simp add: generate_plots_def)



lemma loop_body_total:
  assumes f: "\<not> exceeds_limit maxd (digits_of (int i + 1))"
  shows "\<exists>fig g'. loop_body maxd smp show_progress i w =
      Inr (w\<lparr>rng := g',
             events := events w @ Show_fig fig #
               (if show_progress \<and> Suc i mod 10 = 0 then [Print (progress_line (decimal_int (int i + 1)))] else [])\<rparr>)"
proof -
  have "PLOT_TYPES ! (i mod 10) \<in> set PLOT_TYPES"
    using plot_type_at_known [of i] by (simp only: plot_type_at_eq)
  from generate_plot_fits [OF this f, of smp "rng w"] obtain fig g' where
    "generate_plot maxd smp (PLOT_TYPES ! (i mod 10)) (int i) (rng w) = Inr (fig, g')"
    by (elim exE)
  then have "loop_body maxd smp show_progress i w =
      Inr (w\<lparr>rng := g',
             events := events w @ Show_fig fig #
               (if show_progress \<and> Suc i mod 10 = 0 then [Print (progress_line (decimal_int (int i + 1)))] else [])\<rparr>)"
    by (simp only: loop_body_eq sum.case prod.case)
  then show ?thesis by (intro exI)
qed

lemma int_Suc_plus: "int (Suc n) = int n + 1"
  by simp

lemma loop_events:
  "\<not> exceeds_limit maxd (digits_of (int n)) \<Longrightarrow>
   \<exists>figs g'. length figs = n \<and>
     for_each (loop_body maxd smp show_progress) (range_py n) w =
       Inr (w\<lparr>rng := g',
              events := events w @
                concat (map (\<lambda>i. Show_fig (figs ! i) #
                  (if show_progress \<and> Suc i mod 10 = 0 then [Print (progress_line (decimal_int (int i + 1)))] else []))
                  [0..<n])\<rparr>)"
proof (induction n)
  case 0
  have "for_each (loop_body maxd smp show_progress) (range_py 0) w = Inr (w\<lparr>rng := rng w, events := events w @ []\<rparr>)"
    by (simp add: range_py_0)
  then show ?case by (intro exI [of _ "[]"] exI [of _ "rng w"]) simp
next
  case (Suc n)
  have fn: "\<not> exceeds_limit maxd (digits_of (int n))"
    using Suc.prems by (rule fits_mono) simp
  have fb: "\<not> exceeds_limit maxd (digits_of (int n + 1))"
    using Suc.prems by (simp only: int_Suc_plus simp_thms)
  from Suc.IH [OF fn] obtain figs g1 where n: "length figs = n"
    and w1: "for_each (loop_body maxd smp show_progress) (range_py n) w =
       Inr (w\<lparr>rng := g1,
              events := events w @
                concat (map (\<lambda>i. Show_fig (figs ! i) #
                  (if show_progress \<and> Suc i mod 10 = 0 then [Print (progress_line (decimal_int (int i + 1)))] else []))
                  [0..<n])\<rparr>)" by (elim exE conjE)
  let ?w1 = "w\<lparr>rng := g1,
              events := events w @
                concat (map (\<lambda>i. Show_fig (figs ! i) #
                  (if show_progress \<and> Suc i mod 10 = 0 then [Print (progress_line (decimal_int (int i + 1)))] else []))
                  [0..<n])\<rparr>"
  from loop_body_total [OF fb, of smp show_progress ?w1] obtain fig g2 where
    b: "loop_body maxd smp show_progress n ?w1 =
      Inr (?w1\<lparr>rng := g2,
             events := events ?w1 @ Show_fig fig #
               (if show_progress \<and> Suc n mod 10 = 0 then [Print (progress_line (decimal_int (int n + 1)))] else [])\<rparr>)"
    by (elim exE)
  have m: "map (\<lambda>i. Show_fig ((figs @ [fig]) ! i) #
                  (if show_progress \<and> Suc i mod 10 = 0 then [Print (progress_line (decimal_int (int i + 1)))] else []))
                  [0..<n] =
           map (\<lambda>i. Show_fig (figs ! i) #
                  (if show_progress \<and> Suc i mod 10 = 0 then [Print (progress_line (decimal_int (int i + 1)))] else []))
                  [0..<n]"
    by (rule map_cong [OF refl]) (simp add: n nth_append)
  have e: "(figs @ [fig]) ! n = fig" using n by (simp add: nth_append)
  have "for_each (loop_body maxd smp show_progress) (range_py (Suc n)) w =
       Inr (w\<lparr>rng := g2,
              events := events w @
                concat (map (\<lambda>i. Show_fig ((figs @ [fig]) ! i) #
                  (if show_progress \<and> Suc i mod 10 = 0 then [Print (progress_line (decimal_int (int i + 1)))] else []))
                  [0..<Suc n])\<rparr>)"
    by (simp only: range_py_Suc for_each_append w1 sum.case for_each.simps b upt_Suc_append [OF le0]
        map_append m) (simp add: e)
  moreover have "length (figs @ [fig]) = Suc n" using n by simp
  ultimately show ?case by (intro exI [of _ "figs @ [fig]"] exI [of _ g2] conjI)
qed

lemma printed_append: "printed (a @ b) = printed a @ printed b"
  by (induction a rule: printed.induct) simp_all

lemma printed_rounds:
  "printed (concat (map (\<lambda>i. Show_fig (F i) #
       (if show_progress \<and> Suc i mod 10 = 0 then [Print (progress_line (decimal_int (int i + 1)))] else [])) [0..<n])) =
   (if show_progress then map (\<lambda>k. progress_line (decimal_int (int (10 * k + 9) + 1))) [0..<n div 10] else [])"
proof (induction n)
  case 0
  show ?case by simp
next
  case (Suc n)
  show ?case
  proof (cases "Suc n mod 10 = 0")
    case True
    then have d: "Suc n div 10 = Suc (n div 10)" and e: "10 * (n div 10) + 9 = n" by presburger+
    have "int n = int (10 * (n div 10) + 9)" by (simp only: e)
    then have e3: "int n = 10 * int (n div 10) + 9" by simp
    show ?thesis using Suc True by (simp add: printed_append d e3)
  next
    case False
    then have d: "Suc n div 10 = n div 10" by presburger
    show ?thesis using Suc False by (simp add: printed_append d)
  qed
qed

lemma progress_line_9:
  "progress_line (decimal_int (int 9 + 1)) = [CHR 0x0A] @ ''--- 10 plots generated ---'' @ [CHR 0x0A]"
  by code_simp

lemma progress_line_19:
  "progress_line (decimal_int (int 19 + 1)) = [CHR 0x0A] @ ''--- 20 plots generated ---'' @ [CHR 0x0A]"
  by code_simp

lemma generate_plots_events:
  assumes f: "\<not> exceeds_limit maxd (digits_of (int n))"
  shows "\<exists>w' figs. generate_plots maxd smp env (Some (int n)) show_progress w = Inr w' \<and>
     length figs = n \<and>
     events w' = events w @
       concat (map (\<lambda>i. Show_fig (figs ! i) #
         (if show_progress \<and> Suc i mod 10 = 0 then [Print (progress_line (decimal_int (int i + 1)))] else [])) [0..<n]) \<and>
     printed (events w') = printed (events w) @
       (if show_progress then map (\<lambda>k. progress_line (decimal_int (int (10 * k + 9) + 1))) [0..<n div 10] else [])"
proof -
  from loop_events [OF f, of smp show_progress w] obtain figs g' where n: "length figs = n"
    and r: "for_each (loop_body maxd smp show_progress) (range_py n) w =
       Inr (w\<lparr>rng := g',
              events := events w @
                concat (map (\<lambda>i. Show_fig (figs ! i) #
                  (if show_progress \<and> Suc i mod 10 = 0 then [Print (progress_line (decimal_int (int i + 1)))] else []))
                  [0..<n])\<rparr>)" by (elim exE conjE)
  let ?w' = "w\<lparr>rng := g',
              events := events w @
                concat (map (\<lambda>i. Show_fig (figs ! i) #
                  (if show_progress \<and> Suc i mod 10 = 0 then [Print (progress_line (decimal_int (int i + 1)))] else []))
                  [0..<n])\<rparr>"
  have 1: "generate_plots maxd smp env (Some (int n)) show_progress w = Inr ?w'"
    by (simp only: generate_plots_Some r)
  have 2: "events ?w' = events w @
       concat (map (\<lambda>i. Show_fig (figs ! i) #
         (if show_progress \<and> Suc i mod 10 = 0 then [Print (progress_line (decimal_int (int i + 1)))] else [])) [0..<n])"
    by simp
  have 3: "printed (events ?w') = printed (events w) @
       (if show_progress then map (\<lambda>k. progress_line (decimal_int (int (10 * k + 9) + 1))) [0..<n div 10] else [])"
    unfolding 2 printed_append printed_rounds ..
  show ?thesis
    by (rule exI [of _ ?w'], rule exI [of _ figs]) (intro conjI 1 n 2 3)
qed

lemma generate_plots_printed:
  assumes f: "\<not> exceeds_limit maxd (digits_of (int n))"
  shows "\<exists>w'. generate_plots maxd smp env (Some (int n)) show_progress w = Inr w' \<and>
     printed (events w') = printed (events w) @
       (if show_progress then map (\<lambda>k. progress_line (decimal_int (int (10 * k + 9) + 1))) [0..<n div 10] else [])"
  using generate_plots_events [OF f, of smp env show_progress w]
  by (elim exE conjE, intro exI conjI) assumption+

lemma progress_round_23:
  "map (\<lambda>k. progress_line (decimal_int (int (10 * k + 9) + 1))) [0..<23 div 10] =
     [[CHR 0x0A] @ ''--- 10 plots generated ---'' @ [CHR 0x0A],
      [CHR 0x0A] @ ''--- 20 plots generated ---'' @ [CHR 0x0A]]"
  by code_simp

lemma fits_below:
  assumes "n < 10 ^ 640"
  shows "\<not> exceeds_limit maxd (digits_of (int n))"
proof -
  have "int n < int (10 ^ 640)" using assms by (simp only: of_nat_less_iff)
  then have "int n < 10 ^ 640" by (simp only: of_nat_power of_nat_numeral)
  with of_nat_0_le_iff show ?thesis by (rule not_exceeds_below)
qed

text \<open>
  C5. A run of \<open>n\<close> plots returns whenever \<open>n\<close> has no more digits than the interpreter
  formats, so whenever \<open>n < 10 ^ 640\<close>. What it appends to the log is, for each
  \<open>i < n\<close> in turn, the figure shown and, when the flag is set and \<open>i + 1\<close> is a
  multiple of 10, the progress line for \<open>i + 1\<close> right after it; so the lines printed
  are those for 10, 20, ... up to \<open>n\<close>, \<open>n div 10\<close> of them. For 23 plots with the flag
  set these are the two lines for 10 and 20, under every limit; without the flag nothing
  is printed.
\<close>

theorem progress_lines:
  "(\<not> exceeds_limit maxd (digits_of (int n)) \<longrightarrow>
    (\<exists>w' figs. generate_plots maxd smp env (Some (int n)) show_progress w = Inr w' \<and>
      length figs = n \<and>
      events w' = events w @
        concat (map (\<lambda>i. Show_fig (figs ! i) #
          (if show_progress \<and> (i + 1) mod 10 = 0 then [Print (progress_line (decimal_int (int i + 1)))] else [])) [0..<n]) \<and>
      printed (events w') = printed (events w) @
        (if show_progress then map (\<lambda>k. progress_line (decimal_int (int (10 * k + 9) + 1))) [0..<n div 10] else []))) \<and>
   (\<exists>w'. generate_plots maxd smp env (Some 23) True w = Inr w' \<and>
      printed (events w') = printed (events w) @
        [[CHR 0x0A] @ ''--- 10 plots generated ---'' @ [CHR 0x0A],
         [CHR 0x0A] @ ''--- 20 plots generated ---'' @ [CHR 0x0A]]) \<and>
   (\<not> exceeds_limit maxd (digits_of (int n)) \<longrightarrow>
    (\<exists>w'. generate_plots maxd smp env (Some (int n)) False w = Inr w' \<and>
      printed (events w') = printed (events w))) \<and>
   (n < 10 ^ 640 \<longrightarrow> \<not> exceeds_limit maxd (digits_of (int n)))"
proof -
  have a: "\<not> exceeds_limit maxd (digits_of (int n)) \<longrightarrow>
    (\<exists>w' figs. generate_plots maxd smp env (Some (int n)) show_progress w = Inr w' \<and>
      length figs = n \<and>
      events w' = events w @
        concat (map (\<lambda>i. Show_fig (figs ! i) #
          (if show_progress \<and> (i + 1) mod 10 = 0 then [Print (progress_line (decimal_int (int i + 1)))] else [])) [0..<n]) \<and>
      printed (events w') = printed (events w) @
        (if show_progress then map (\<lambda>k. progress_line (decimal_int (int (10 * k + 9) + 1))) [0..<n div 10] else []))"
  proof
    assume f: "\<not> exceeds_limit maxd (digits_of (int n))"
    show "\<exists>w' figs. generate_plots maxd smp env (Some (int n)) show_progress w = Inr w' \<and>
      length figs = n \<and>
      events w' = events w @
        concat (map (\<lambda>i. Show_fig (figs ! i) #
          (if show_progress \<and> (i + 1) mod 10 = 0 then [Print (progress_line (decimal_int (int i + 1)))] else [])) [0..<n]) \<and>
      printed (events w') = printed (events w) @
        (if show_progress then map (\<lambda>k. progress_line (decimal_int (int (10 * k + 9) + 1))) [0..<n div 10] else [])"
      using generate_plots_events [OF f, of smp env show_progress w] by (simp only: Suc_eq_plus1)
  qed
  have f23: "\<not> exceeds_limit maxd (digits_of (int 23))" by (rule fits_small) simp_all
  have b: "\<exists>w'. generate_plots maxd smp env (Some 23) True w = Inr w' \<and>
      printed (events w') = printed (events w) @
        [[CHR 0x0A] @ ''--- 10 plots generated ---'' @ [CHR 0x0A],
         [CHR 0x0A] @ ''--- 20 plots generated ---'' @ [CHR 0x0A]]"
    using generate_plots_printed [OF f23, of smp env True w]
    by (simp only: progress_round_23 if_True of_nat_numeral)
  have c: "\<not> exceeds_limit maxd (digits_of (int n)) \<longrightarrow>
    (\<exists>w'. generate_plots maxd smp env (Some (int n)) False w = Inr w' \<and>
      printed (events w') = printed (events w))"
  proof
    assume f: "\<not> exceeds_limit maxd (digits_of (int n))"
    show "\<exists>w'. generate_plots maxd smp env (Some (int n)) False w = Inr w' \<and>
      printed (events w') = printed (events w)"
      using generate_plots_printed [OF f, of smp env False w]
      by (simp only: if_False append_Nil2)
  qed
  have d: "n < 10 ^ 640 \<longrightarrow> \<not> exceeds_limit maxd (digits_of (int n))"
    by (rule impI) (rule fits_below)
  show ?thesis by (intro conjI a b c d)
qed

theorem progress_lines_witness:
  "\<not> exceeds_limit 4300 (digits_of (int 23)) \<and>
   (\<exists>w'. generate_plots 4300 counter_smp (\<lambda>k. None) (Some (int 23)) True \<lparr>rng = 0, events = []\<rparr> = Inr w' \<and>
      printed (events w') =
        [[CHR 0x0A] @ ''--- 10 plots generated ---'' @ [CHR 0x0A],
         [CHR 0x0A] @ ''--- 20 plots generated ---'' @ [CHR 0x0A]])"
proof -
  have f: "\<not> exceeds_limit 4300 (digits_of (int 23))" by (rule fits_small) simp_all
  from progress_lines [where maxd = 4300 and n = 23 and smp = counter_smp and env = "\<lambda>k. None"
      and show_progress = True and w = "\<lparr>rng = 0, events = []\<rparr>", THEN conjunct1, THEN mp, OF f]
  obtain w' figs where
    r: "generate_plots 4300 counter_smp (\<lambda>k. None) (Some (int 23)) True \<lparr>rng = 0, events = []\<rparr> = Inr w'"
    and p: "printed (events w') = printed (events \<lparr>rng = 0::nat, events = []\<rparr>) @
        (if True then map (\<lambda>k. progress_line (decimal_int (int (10 * k + 9) + 1))) [0..<23 div 10] else [])"
    by (elim exE conjE)
  have "printed (events w') =
        [[CHR 0x0A] @ ''--- 10 plots generated ---'' @ [CHR 0x0A],
         [CHR 0x0A] @ ''--- 20 plots generated ---'' @ [CHR 0x0A]]"
    unfolding p by (simp only: progress_round_23 if_True select_convs printed.simps append_Nil)
  with r have "\<exists>w'. generate_plots 4300 counter_smp (\<lambda>k. None) (Some (int 23)) True \<lparr>rng = 0, events = []\<rparr> = Inr w' \<and>
      printed (events w') =
        [[CHR 0x0A] @ ''--- 10 plots generated ---'' @ [CHR 0x0A],
         [CHR 0x0A] @ ''--- 20 plots generated ---'' @ [CHR 0x0A]]"
    by (intro exI [of _ w'] conjI)
  with f show ?thesis by (rule conjI)
qed

text \<open>
  C10. With \<^verbatim>\<open>num_plots = 0\<close> the driver returns with the world as it was, whatever the
  progress flag and whatever the environment holds: the generator has not advanced and
  the log has no new entry, so nothing was read from the environment, shown or printed.
\<close>

theorem generate_plots_zero:
  "generate_plots maxd smp env (Some 0) show_progress w = Inr w"
  by (simp add: generate_plots_def range_py_0)

subsection \<open>The plot count\<close>





































end
